theory Spec2Isabelle
  imports Complex_Main
begin

section \<open>Data model\<close>

text \<open>
  The catalog synchronisation core of the store backend: \<^verbatim>\<open>services/sync_engine.py\<close>
  (classes \<^verbatim>\<open>SyncEngine\<close> and \<^verbatim>\<open>TierManager\<close>), the request schemas of
  \<^verbatim>\<open>schemas/schemas.py\<close>, the batch endpoint of \<^verbatim>\<open>api/v1/endpoints/sync.py\<close> and
  the rate limiter of \<^verbatim>\<open>middleware/rate_limit.py\<close> with the counter of
  \<^verbatim>\<open>core/redis.py\<close>.

  Conventions of the embedding. A UUID is a natural number drawn from a supply kept in
  the database state. A \<^verbatim>\<open>datetime\<close> is a number of seconds; one call of an operation
  is evaluated at one instant \<open>now\<close>, which every \<^verbatim>\<open>datetime.utcnow()\<close> of that call
  returns. A Python \<^verbatim>\<open>float\<close> is the rational number it denotes; the operations on
  floats are parameters. A string is a list of characters, one per code point below 256.
\<close>

type_synonym uuid = nat
type_synonym datetime = int

datatype StoreTier = TIER1 | TIER2 | TIER3 | TIER4

text \<open>The columns of \<^verbatim>\<open>models.Store\<close> that the synchronisation path reads or writes.\<close>

record Store =
  st_id :: uuid
  st_sync_api_key :: string
  st_is_active :: bool
  st_sync_tier :: "StoreTier option"
  st_sync_interval_minutes :: int
  st_last_sync_at :: "datetime option"

text \<open>
  The columns of \<^verbatim>\<open>models.Product\<close> that the synchronisation path reads or writes.
  The remaining columns (category, media, SEO, attributes) are never assigned by it.
\<close>

record Product =
  p_id :: uuid
  p_store_id :: uuid
  p_external_id :: string
  p_name :: string
  p_slug :: string
  p_description :: "string option"
  p_mrp :: rat
  p_selling_price :: rat
  p_discount_percent :: rat
  p_quantity :: int
  p_unit :: "string option"
  p_sku :: "string option"
  p_barcode :: "string option"
  p_hsn_code :: "string option"
  p_gst_percent :: rat
  p_is_active :: bool
  p_is_in_stock :: bool
  p_last_synced_at :: "datetime option"
  p_sync_version :: int
  p_sync_checksum :: "string option"
  p_created_at :: datetime
  p_updated_at :: datetime

text \<open>\<^verbatim>\<open>models.Order\<close>, as far as the activity metrics read it.\<close>

record Order =
  o_store_id :: uuid
  o_created_at :: datetime

text \<open>\<^verbatim>\<open>schemas.SyncProductItem\<close>: one validated record of a batch.\<close>

record SyncProductItem =
  external_id :: string
  name :: string
  description :: "string option"
  mrp :: rat
  selling_price :: rat
  quantity :: int
  unit :: "string option"
  sku :: "string option"
  barcode :: "string option"
  category :: "string option"
  hsn_code :: "string option"
  gst_percent :: "rat option"
  updated_at :: "datetime option"

text \<open>
  Exceptions as values. \<open>DBAPIError\<close> is what \<^verbatim>\<open>Session.commit()\<close> raises when the
  database refuses a row. \<open>PendingRollbackError\<close> is what the session raises on every
  later query and commit until \<^verbatim>\<open>rollback()\<close> is called. \<open>ValueError\<close> carries its
  message.
\<close>

datatype error = DBAPIError | PendingRollbackError | ValueError string

record SyncLog =
  log_id :: uuid
  log_store_id :: uuid
  log_sync_type :: string
  log_status :: string
  records_received :: int
  records_created :: int
  records_updated :: int
  records_failed :: int
  log_duration_seconds :: int
  log_error_details :: "(string \<times> error) list option"
  log_started_at :: datetime
  log_completed_at :: datetime

text \<open>The tables behind the SQLAlchemy session, and the supply \<^verbatim>\<open>uuid4()\<close> draws from.\<close>

record db =
  stores :: "Store list"
  products :: "Product list"
  orders :: "Order list"
  sync_logs :: "SyncLog list"
  uuid_supply :: nat

text \<open>
  What the code uses and the repository does not define: the constraint check of the
  database at commit (a row it refuses makes \<^verbatim>\<open>commit()\<close> raise, and nothing of the
  pending change reaches the tables), \<^verbatim>\<open>hashlib.md5(...).hexdigest()\<close>, the text Python
  prints for a float inside an f-string, and the arithmetic of floats, which rounds:
  subtraction, division, multiplication and \<^verbatim>\<open>round(x, 2)\<close>. They are parameters of
  the model.
\<close>

record platform =
  db_accepts :: "Product \<Rightarrow> bool"
  md5_hexdigest :: "string \<Rightarrow> string"
  str_float :: "rat \<Rightarrow> string"
  float_sub :: "rat \<Rightarrow> rat \<Rightarrow> rat"
  float_div :: "rat \<Rightarrow> rat \<Rightarrow> rat"
  float_mul :: "rat \<Rightarrow> rat \<Rightarrow> rat"
  float_round2 :: "rat \<Rightarrow> rat"

record stats =
  processed :: int
  created :: int
  updated :: int
  failed :: int
  errors :: "(string \<times> error) list"

text \<open>\<^verbatim>\<open>schemas.SyncBatchResponse\<close>.\<close>

record SyncBatchResponse =
  r_success :: bool
  r_sync_id :: uuid
  r_processed :: int
  r_created :: int
  r_updated :: int
  r_failed :: int
  r_errors :: "(string \<times> error) list"
  r_next_sync_recommended_at :: datetime
  r_duration_seconds :: int

section \<open>Helpers of the sync engine\<close>

text \<open>Python's \<^verbatim>\<open>str\<close> of an integer, as the f-string of the checksum prints it.\<close>

fun str_nat :: "nat \<Rightarrow> string" where
  "str_nat n =
     (if n < 10 then [''0123456789'' ! n]
      else str_nat (n div 10) @ [''0123456789'' ! (n mod 10)])"

declare str_nat.simps [simp del]

definition str_int :: "int \<Rightarrow> string" where
  "str_int i = (if i < 0 then ''-'' @ str_nat (nat (- i)) else str_nat (nat i))"

text \<open>
  \<^verbatim>\<open>_calculate_checksum\<close>: the MD5 digest of
  \<^verbatim>\<open>f"{name}|{mrp}|{selling_price}|{quantity}"\<close>.
\<close>

definition calculate_checksum :: "platform \<Rightarrow> SyncProductItem \<Rightarrow> string" where
  "calculate_checksum E data =
     md5_hexdigest E
       (name data @ ''|'' @ str_float E (mrp data) @ ''|''
          @ str_float E (selling_price data) @ ''|'' @ str_int (quantity data))"

text \<open>
  \<^verbatim>\<open>_calculate_discount\<close>:
  \<^verbatim>\<open>round(((mrp - selling_price) / mrp) * 100, 2)\<close> when \<^verbatim>\<open>mrp > 0\<close>, else 0.
\<close>

definition calculate_discount :: "platform \<Rightarrow> rat \<Rightarrow> rat \<Rightarrow> rat" where
  "calculate_discount E m s =
     (if m > 0 then float_round2 E (float_mul E (float_div E (float_sub E m s) m) 100) else 0)"

text \<open>
  \<^verbatim>\<open>_generate_slug\<close>: lower case, drop every character outside
  \<^verbatim>\<open>[a-z0-9\s-]\<close>, replace each run of \<^verbatim>\<open>[\s-]\<close> by one hyphen, strip hyphens at
  both ends, keep 500 characters.
\<close>

definition lower_char :: "char \<Rightarrow> char" where
  "lower_char c =
     (case map_of (zip ''ABCDEFGHIJKLMNOPQRSTUVWXYZ'' ''abcdefghijklmnopqrstuvwxyz'') c of
        Some l \<Rightarrow> l | None \<Rightarrow> c)"

definition is_space :: "char \<Rightarrow> bool" where
  "is_space c \<longleftrightarrow>
     c \<in> set [CHR 0x09, CHR 0x0A, CHR 0x0B, CHR 0x0C, CHR 0x0D, CHR 0x1C, CHR 0x1D,
              CHR 0x1E, CHR 0x1F, CHR 0x20, CHR 0x85, CHR 0xA0]"

definition is_sep :: "char \<Rightarrow> bool" where
  "is_sep c \<longleftrightarrow> is_space c \<or> c = CHR ''-''"

definition is_slug_char :: "char \<Rightarrow> bool" where
  "is_slug_char c \<longleftrightarrow>
     c \<in> set ''abcdefghijklmnopqrstuvwxyz0123456789'' \<or> is_sep c"

function collapse_seps :: "string \<Rightarrow> string" where
  "collapse_seps [] = []"
| "collapse_seps (c # cs) =
     (if is_sep c then CHR ''-'' # collapse_seps (dropWhile is_sep cs)
      else c # collapse_seps cs)"
  by pat_completeness auto
termination
  by (relation "measure length") (auto simp: less_Suc_eq_le length_dropWhile_le)

definition strip_hyphens :: "string \<Rightarrow> string" where
  "strip_hyphens s =
     rev (dropWhile (\<lambda>c. c = CHR ''-'') (rev (dropWhile (\<lambda>c. c = CHR ''-'') s)))"

definition generate_slug :: "string \<Rightarrow> string" where
  "generate_slug nm =
     take 500 (strip_hyphens (collapse_seps (filter is_slug_char (map lower_char nm))))"

text \<open>\<^verbatim>\<open>data.gst_percent or 0\<close>.\<close>

definition gst_or_0 :: "rat option \<Rightarrow> rat" where
  "gst_or_0 g = (case g of None \<Rightarrow> 0 | Some x \<Rightarrow> (if x = 0 then 0 else x))"

text \<open>\<^verbatim>\<open>_update_product_fields\<close>.\<close>

definition update_product_fields :: "platform \<Rightarrow> Product \<Rightarrow> SyncProductItem \<Rightarrow> Product" where
  "update_product_fields E product data =
     product\<lparr>p_name := name data,
             p_description := description data,
             p_mrp := mrp data,
             p_selling_price := selling_price data,
             p_quantity := quantity data,
             p_unit := unit data,
             p_sku := sku data,
             p_barcode := barcode data,
             p_hsn_code := hsn_code data,
             p_gst_percent := gst_or_0 (gst_percent data),
             p_discount_percent := calculate_discount E (mrp data) (selling_price data)\<rparr>"

section \<open>The session: queries and commits\<close>

text \<open>
  \<^verbatim>\<open>db.query(Product).filter(and_(store_id == .., external_id == ..)).first()\<close>.
\<close>

definition is_row :: "uuid \<Rightarrow> string \<Rightarrow> Product \<Rightarrow> bool" where
  "is_row sid e p \<longleftrightarrow> p_store_id p = sid \<and> p_external_id p = e"

definition find_product :: "db \<Rightarrow> uuid \<Rightarrow> string \<Rightarrow> Product option" where
  "find_product d sid e = find (is_row sid e) (products d)"

text \<open>Writing back the object that the query returned: the first matching row.\<close>

fun replace_first :: "('a \<Rightarrow> bool) \<Rightarrow> 'a \<Rightarrow> 'a list \<Rightarrow> 'a list" where
  "replace_first P y [] = []"
| "replace_first P y (x # xs) = (if P x then y # xs else x # replace_first P y xs)"

definition uuid4 :: "db \<Rightarrow> uuid \<times> db" where
  "uuid4 d = (uuid_supply d, d\<lparr>uuid_supply := Suc (uuid_supply d)\<rparr>)"

text \<open>
  \<^verbatim>\<open>self.db.commit()\<close> after a change to one product row, in a session that is in
  order: the database takes the row, or refuses it; then the commit raises and the tables
  stay as they were. What a refused commit does to the session is the matter of the loop
  below.
\<close>

definition commit_update ::
  "platform \<Rightarrow> uuid \<Rightarrow> string \<Rightarrow> Product \<Rightarrow> string \<Rightarrow> db \<Rightarrow> (error + string) \<times> db" where
  "commit_update E sid e row res d =
     (if db_accepts E row
      then (Inr res, d\<lparr>products := replace_first (is_row sid e) row (products d)\<rparr>)
      else (Inl DBAPIError, d))"

definition commit_insert ::
  "platform \<Rightarrow> Product \<Rightarrow> string \<Rightarrow> db \<Rightarrow> (error + string) \<times> db" where
  "commit_insert E row res d =
     (if db_accepts E row
      then (Inr res, d\<lparr>products := products d @ [row]\<rparr>)
      else (Inl DBAPIError, d))"

section \<open>SyncEngine\<close>

text \<open>The row that \<^verbatim>\<open>_upsert_product\<close> builds for an external id it has not seen.\<close>

definition new_product ::
  "platform \<Rightarrow> datetime \<Rightarrow> uuid \<Rightarrow> uuid \<Rightarrow> SyncProductItem \<Rightarrow> Product" where
  "new_product E now pid sid data =
     \<lparr>p_id = pid,
      p_store_id = sid,
      p_external_id = external_id data,
      p_name = name data,
      p_slug = generate_slug (name data),
      p_description = description data,
      p_mrp = mrp data,
      p_selling_price = selling_price data,
      p_discount_percent = calculate_discount E (mrp data) (selling_price data),
      p_quantity = quantity data,
      p_unit = unit data,
      p_sku = sku data,
      p_barcode = barcode data,
      p_hsn_code = hsn_code data,
      p_gst_percent = gst_or_0 (gst_percent data),
      p_is_active = True,
      p_is_in_stock = (quantity data > 0),
      p_last_synced_at = Some now,
      p_sync_version = 1,
      p_sync_checksum = Some (calculate_checksum E data),
      p_created_at = now,
      p_updated_at = now\<rparr>"

text \<open>The row that \<^verbatim>\<open>_upsert_product\<close> writes over an existing one (lines 141 to 148).\<close>

definition updated_product ::
  "platform \<Rightarrow> datetime \<Rightarrow> Product \<Rightarrow> SyncProductItem \<Rightarrow> Product" where
  "updated_product E now existing data =
     (let p1 = update_product_fields E existing data;
          p2 = p1\<lparr>p_sync_checksum := Some (calculate_checksum E data),
                  p_sync_version := p_sync_version p1 + 1,
                  p_last_synced_at := Some now,
                  p_updated_at := now\<rparr>
      in p2\<lparr>p_is_in_stock := (p_quantity p2 > 0)\<rparr>)"

text \<open>\<^verbatim>\<open>_upsert_product\<close>. It returns the string the source returns.\<close>

definition upsert_product ::
  "platform \<Rightarrow> datetime \<Rightarrow> uuid \<Rightarrow> SyncProductItem \<Rightarrow> string \<Rightarrow> db \<Rightarrow> (error + string) \<times> db" where
  "upsert_product E now sid data sync_type d =
     (let checksum = calculate_checksum E data in
      case find_product d sid (external_id data) of
        Some existing \<Rightarrow>
          if sync_type = ''delta'' \<and> p_sync_checksum existing = Some checksum
          then (Inr ''updated'', d)
          else commit_update E sid (external_id data)
                 (updated_product E now existing data) ''updated'' d
      | None \<Rightarrow>
          (let (pid, d1) = uuid4 d
           in commit_insert E (new_product E now pid sid data) ''created'' d1))"

text \<open>
  \<^verbatim>\<open>_update_inventory_only\<close>. The deletion of the inventory cache key that follows the
  commit touches no table and cannot raise (the Redis wrapper catches every exception).
\<close>

definition inventory_row :: "datetime \<Rightarrow> Product \<Rightarrow> SyncProductItem \<Rightarrow> Product" where
  "inventory_row now product data =
     product\<lparr>p_quantity := quantity data,
             p_is_in_stock := (quantity data > 0),
             p_last_synced_at := Some now,
             p_updated_at := now\<rparr>"

definition update_inventory_only ::
  "platform \<Rightarrow> datetime \<Rightarrow> uuid \<Rightarrow> SyncProductItem \<Rightarrow> db \<Rightarrow> (error + string) \<times> db" where
  "update_inventory_only E now sid data d =
     (case find_product d sid (external_id data) of
        Some product \<Rightarrow>
          commit_update E sid (external_id data) (inventory_row now product data) ''updated'' d
      | None \<Rightarrow> upsert_product E now sid data ''full'' d)"

text \<open>The call inside the \<^verbatim>\<open>try\<close> of \<^verbatim>\<open>process_batch_sync\<close> (lines 67 to 70).\<close>

definition sync_step ::
  "platform \<Rightarrow> datetime \<Rightarrow> uuid \<Rightarrow> string \<Rightarrow> SyncProductItem \<Rightarrow> db \<Rightarrow> (error + string) \<times> db" where
  "sync_step E now sid sync_type data d =
     (if sync_type = ''inventory_only''
      then update_inventory_only E now sid data d
      else upsert_product E now sid data sync_type d)"

text \<open>
  The counters after the call returned \<open>success\<close> (lines 72 to 77), and after it raised
  (lines 79 to 85).
\<close>

definition count_success :: "string \<Rightarrow> stats \<Rightarrow> stats" where
  "count_success success s =
     (let s1 = (if success = ''created'' then s\<lparr>created := created s + 1\<rparr>
                else if success = ''updated'' then s\<lparr>updated := updated s + 1\<rparr>
                else s)
      in s1\<lparr>processed := processed s1 + 1\<rparr>)"

definition count_failure :: "SyncProductItem \<Rightarrow> error \<Rightarrow> stats \<Rightarrow> stats" where
  "count_failure data e s =
     s\<lparr>failed := failed s + 1, errors := errors s @ [(external_id data, e)]\<rparr>"

text \<open>
  One iteration of the loop of \<^verbatim>\<open>process_batch_sync\<close> (lines 65 to 85), in a session
  that is in order.
\<close>

definition sync_one ::
  "platform \<Rightarrow> datetime \<Rightarrow> uuid \<Rightarrow> string \<Rightarrow> SyncProductItem \<Rightarrow> stats \<times> db \<Rightarrow> stats \<times> db" where
  "sync_one E now sid sync_type data sd =
     (case sync_step E now sid sync_type data (snd sd) of
        (Inr success, d') \<Rightarrow> (count_success success (fst sd), d')
      | (Inl e, d') \<Rightarrow> (count_failure data e (fst sd), d'))"

text \<open>
  The loop, with the state of the session. The \<^verbatim>\<open>except\<close> branch counts the failure
  and goes on; it does not call \<^verbatim>\<open>self.db.rollback()\<close>, and nothing else in the engine
  or the endpoint does. So after a commit that the database refused the session stays
  broken: the query that opens the call for each later record raises
  \<open>PendingRollbackError\<close>, which the \<^verbatim>\<open>except\<close> branch counts like any other
  failure, and no table changes any more. The flag is \<open>True\<close> for a broken session.
\<close>

definition sync_iter ::
  "platform \<Rightarrow> datetime \<Rightarrow> uuid \<Rightarrow> string \<Rightarrow> SyncProductItem \<Rightarrow> bool \<times> stats \<times> db
     \<Rightarrow> bool \<times> stats \<times> db" where
  "sync_iter E now sid sync_type data st =
     (if fst st
      then (True, count_failure data PendingRollbackError (fst (snd st)), snd (snd st))
      else (isl (fst (sync_step E now sid sync_type data (snd (snd st)))),
            sync_one E now sid sync_type data (snd st)))"

fun sync_loop ::
  "platform \<Rightarrow> datetime \<Rightarrow> uuid \<Rightarrow> string \<Rightarrow> SyncProductItem list \<Rightarrow> bool \<times> stats \<times> db
     \<Rightarrow> bool \<times> stats \<times> db" where
  "sync_loop E now sid sync_type [] st = st"
| "sync_loop E now sid sync_type (data # rest) st =
     sync_loop E now sid sync_type rest (sync_iter E now sid sync_type data st)"

definition stats0 :: stats where
  "stats0 = \<lparr>processed = 0, created = 0, updated = 0, failed = 0, errors = []\<rparr>"

text \<open>\<^verbatim>\<open>_log_sync\<close>.\<close>

definition sync_status :: "stats \<Rightarrow> string" where
  "sync_status s =
     (if failed s = 0 then ''success'' else if processed s > 0 then ''partial'' else ''failed'')"

definition log_sync :: "datetime \<Rightarrow> uuid \<Rightarrow> uuid \<Rightarrow> string \<Rightarrow> stats \<Rightarrow> int \<Rightarrow> db \<Rightarrow> db" where
  "log_sync now sid sync_id sync_type s duration d =
     d\<lparr>sync_logs := sync_logs d @
        [\<lparr>log_id = sync_id,
          log_store_id = sid,
          log_sync_type = sync_type,
          log_status = sync_status s,
          records_received = processed s + failed s,
          records_created = created s,
          records_updated = updated s,
          records_failed = failed s,
          log_duration_seconds = duration,
          log_error_details = (if errors s \<noteq> [] then Some (errors s) else None),
          log_started_at = now - duration,
          log_completed_at = now\<rparr>]\<rparr>"

text \<open>\<^verbatim>\<open>_calculate_next_sync_time\<close>: \<^verbatim>\<open>intervals.get(tier, 60)\<close> minutes from now.\<close>

definition next_sync_minutes :: "StoreTier option \<Rightarrow> int" where
  "next_sync_minutes t =
     (case t of Some TIER1 \<Rightarrow> 5 | Some TIER2 \<Rightarrow> 15 | Some TIER3 \<Rightarrow> 60
              | Some TIER4 \<Rightarrow> 240 | None \<Rightarrow> 60)"

definition calculate_next_sync_time :: "datetime \<Rightarrow> StoreTier option \<Rightarrow> datetime" where
  "calculate_next_sync_time now t = now + next_sync_minutes t * 60"

text \<open>
  \<^verbatim>\<open>process_batch_sync\<close>. The session of a request is new (\<^verbatim>\<open>get_db\<close>), so the
  loop starts with a session in order. After the loop the store's \<^verbatim>\<open>last_sync_at\<close> is
  assigned and committed (lines 88 and 89). In a broken session that commit raises
  \<open>PendingRollbackError\<close>, outside any \<^verbatim>\<open>try\<close>: the call ends there, the assignment
  never reaches the table and \<^verbatim>\<open>_log_sync\<close> is not reached. What the call raises comes
  with the tables it leaves behind.
\<close>

definition process_batch_sync ::
  "platform \<Rightarrow> datetime \<Rightarrow> uuid \<Rightarrow> string \<Rightarrow> SyncProductItem list \<Rightarrow> db
     \<Rightarrow> (error \<times> db) + (SyncBatchResponse \<times> db)" where
  "process_batch_sync E now store_id sync_type prods d =
     (let (sync_id, d0) = uuid4 d in
      case find (\<lambda>s. st_id s = store_id) (stores d0) of
        None \<Rightarrow> Inl (ValueError ''Store not found'', d0)
      | Some store \<Rightarrow>
          (let (broken, s, d1) = sync_loop E now store_id sync_type prods (False, stats0, d0)
           in if broken then Inl (PendingRollbackError, d1)
              else
                (let d2 = d1\<lparr>stores := replace_first (\<lambda>s. st_id s = store_id)
                                         (store\<lparr>st_last_sync_at := Some now\<rparr>) (stores d1)\<rparr>;
                     duration = 0;
                     d3 = log_sync now store_id sync_id sync_type s duration d2
                 in Inr (\<lparr>r_success = (failed s = 0),
                           r_sync_id = sync_id,
                           r_processed = processed s,
                           r_created = created s,
                           r_updated = updated s,
                           r_failed = failed s,
                           r_errors = errors s,
                           r_next_sync_recommended_at =
                             calculate_next_sync_time now (st_sync_tier store),
                           r_duration_seconds = duration\<rparr>, d3))))"

section \<open>TierManager\<close>

record metrics =
  orders_per_day :: int
  products_updated_per_day :: int
  total_products :: int

text \<open>\<^verbatim>\<open>_get_activity_metrics\<close>: the counts over the last 24 hours.\<close>

definition get_activity_metrics :: "datetime \<Rightarrow> uuid \<Rightarrow> db \<Rightarrow> metrics" where
  "get_activity_metrics now sid d =
     (let day_ago = now - 86400
      in \<lparr>orders_per_day =
            int (length (filter (\<lambda>x. o_store_id x = sid \<and> day_ago \<le> o_created_at x) (orders d))),
          products_updated_per_day =
            int (length (filter (\<lambda>p. p_store_id p = sid \<and> day_ago \<le> p_updated_at p) (products d))),
          total_products =
            int (length (filter (\<lambda>p. p_store_id p = sid) (products d)))\<rparr>)"

text \<open>\<^verbatim>\<open>_calculate_tier\<close>.\<close>

definition calculate_tier :: "metrics \<Rightarrow> StoreTier" where
  "calculate_tier m =
     (let orders = orders_per_day m; updates = products_updated_per_day m
      in if orders \<ge> 50 \<or> updates \<ge> 100 then TIER1
         else if orders \<ge> 20 \<or> updates \<ge> 30 then TIER2
         else if orders \<ge> 5 \<or> updates \<ge> 10 then TIER3
         else TIER4)"

text \<open>\<^verbatim>\<open>_get_sync_interval\<close>: every tier is a key of the table.\<close>

definition get_sync_interval :: "StoreTier \<Rightarrow> int" where
  "get_sync_interval t = (case t of TIER1 \<Rightarrow> 5 | TIER2 \<Rightarrow> 15 | TIER3 \<Rightarrow> 60 | TIER4 \<Rightarrow> 240)"

text \<open>\<^verbatim>\<open>evaluate_and_adjust_tier\<close>.\<close>

definition evaluate_and_adjust_tier :: "datetime \<Rightarrow> uuid \<Rightarrow> db \<Rightarrow> db" where
  "evaluate_and_adjust_tier now sid d =
     (case find (\<lambda>s. st_id s = sid) (stores d) of
        None \<Rightarrow> d
      | Some store \<Rightarrow>
          (let new_tier = calculate_tier (get_activity_metrics now sid d)
           in if Some new_tier \<noteq> st_sync_tier store
              then d\<lparr>stores := replace_first (\<lambda>s. st_id s = sid)
                       (store\<lparr>st_sync_tier := Some new_tier,
                              st_sync_interval_minutes := get_sync_interval new_tier\<rparr>)
                       (stores d)\<rparr>
              else d))"

section \<open>Request validation and the batch endpoint\<close>

text \<open>
  The JSON body before validation: a field that the request leaves out is \<open>None\<close>.
\<close>

record RawProductItem =
  raw_external_id :: "string option"
  raw_name :: "string option"
  raw_description :: "string option"
  raw_mrp :: "rat option"
  raw_selling_price :: "rat option"
  raw_quantity :: "int option"
  raw_unit :: "string option"
  raw_sku :: "string option"
  raw_barcode :: "string option"
  raw_category :: "string option"
  raw_hsn_code :: "string option"
  raw_gst_percent :: "rat option"
  raw_updated_at :: "datetime option"

record RawBatchRequest =
  raw_store_id :: uuid
  raw_sync_type :: string
  raw_timestamp :: datetime
  raw_products :: "RawProductItem list"

text \<open>\<^verbatim>\<open>schemas.SyncBatchRequest\<close>, validated.\<close>

record SyncBatchRequest =
  req_store_id :: uuid
  req_sync_type :: string
  req_timestamp :: datetime
  req_products :: "SyncProductItem list"

text \<open>
  The field constraints of \<^verbatim>\<open>SyncProductItem\<close>: \<^verbatim>\<open>external_id\<close> required with
  \<^verbatim>\<open>min_length=1\<close>, \<^verbatim>\<open>name\<close> required with \<^verbatim>\<open>min_length=2\<close>, \<^verbatim>\<open>mrp\<close> and
  \<^verbatim>\<open>selling_price\<close> required and \<^verbatim>\<open>gt=0\<close>, \<^verbatim>\<open>quantity\<close> with default 0 and
  \<^verbatim>\<open>ge=0\<close>, \<^verbatim>\<open>gst_percent\<close> with default 0 and between 0 and 100.
\<close>

definition validate_item :: "RawProductItem \<Rightarrow> SyncProductItem option" where
  "validate_item r =
     (case (raw_external_id r, raw_name r, raw_mrp r, raw_selling_price r) of
        (Some e, Some n, Some m, Some s) \<Rightarrow>
          (let q = (case raw_quantity r of None \<Rightarrow> 0 | Some q \<Rightarrow> q);
               g = (case raw_gst_percent r of None \<Rightarrow> 0 | Some g \<Rightarrow> g)
           in if 1 \<le> length e \<and> 2 \<le> length n \<and> 0 < m \<and> 0 < s \<and> 0 \<le> q \<and> 0 \<le> g \<and> g \<le> 100
              then Some \<lparr>external_id = e, name = n, description = raw_description r,
                         mrp = m, selling_price = s, quantity = q, unit = raw_unit r,
                         sku = raw_sku r, barcode = raw_barcode r, category = raw_category r,
                         hsn_code = raw_hsn_code r, gst_percent = Some g,
                         updated_at = raw_updated_at r\<rparr>
              else None)
      | _ \<Rightarrow> None)"

text \<open>
  \<^verbatim>\<open>SyncBatchRequest\<close>: the pattern of \<^verbatim>\<open>sync_type\<close>, every item valid,
  \<^verbatim>\<open>max_items=1000\<close>, and the validator that refuses an empty list.
\<close>

definition validate_request :: "RawBatchRequest \<Rightarrow> SyncBatchRequest option" where
  "validate_request raw =
     (if raw_sync_type raw \<notin> set [''delta'', ''full'', ''inventory_only''] then None
      else case those (map validate_item (raw_products raw)) of
             None \<Rightarrow> None
           | Some items \<Rightarrow>
               if length items > 1000 then None
               else if length items = 0 then None
               else Some \<lparr>req_store_id = raw_store_id raw,
                          req_sync_type = raw_sync_type raw,
                          req_timestamp = raw_timestamp raw,
                          req_products = items\<rparr>)"

datatype http_error = HTTP_400 | HTTP_401 | HTTP_403 | HTTP_422 | HTTP_500

text \<open>\<^verbatim>\<open>verify_sync_api_key\<close>.\<close>

definition verify_sync_api_key :: "string \<Rightarrow> db \<Rightarrow> http_error + Store" where
  "verify_sync_api_key key d =
     (case find (\<lambda>s. st_sync_api_key s = key) (stores d) of
        None \<Rightarrow> Inl HTTP_401
      | Some store \<Rightarrow> if \<not> st_is_active store then Inl HTTP_403 else Inr store)"

text \<open>
  \<^verbatim>\<open>sync_products_batch\<close>. The framework resolves the key dependency and validates the
  body before the handler runs; a body that fails validation is answered with 422. Inside
  the handler the store mismatch raises an \<^verbatim>\<open>HTTPException\<close>, which the handler's own
  \<^verbatim>\<open>except Exception\<close> turns into a 500; a \<^verbatim>\<open>ValueError\<close> becomes a 400, and
  whatever else the engine raises a 500. What the engine committed before it raised stays
  in the tables.
\<close>

definition sync_products_batch ::
  "platform \<Rightarrow> datetime \<Rightarrow> string \<Rightarrow> RawBatchRequest \<Rightarrow> db
     \<Rightarrow> (http_error + SyncBatchResponse) \<times> db" where
  "sync_products_batch E now key raw d =
     (case verify_sync_api_key key d of
        Inl e \<Rightarrow> (Inl e, d)
      | Inr store \<Rightarrow>
          (case validate_request raw of
             None \<Rightarrow> (Inl HTTP_422, d)
           | Some request \<Rightarrow>
               if st_id store \<noteq> req_store_id request then (Inl HTTP_500, d)
               else (case process_batch_sync E now (req_store_id request)
                            (req_sync_type request) (req_products request) d of
                       Inl (e, d') \<Rightarrow>
                         (Inl (case e of ValueError m \<Rightarrow> HTTP_400 | _ \<Rightarrow> HTTP_500), d')
                     | Inr (result, d') \<Rightarrow>
                         (Inr result, evaluate_and_adjust_tier now (req_store_id request) d'))))"

section \<open>Rate limiter\<close>

text \<open>
  The Redis server as far as the counter needs it: a value and an optional expiry time
  per key. A key whose expiry time has passed is gone. \<open>None\<close> for the client is
  \<^verbatim>\<open>self.redis is None\<close>, the connection that could not be set up. Time is the clock
  reading in whole seconds.
\<close>

record redis_entry =
  rvalue :: int
  rexpiry :: "nat option"

type_synonym redis_store = "string \<Rightarrow> redis_entry option"

definition live :: "redis_store \<Rightarrow> nat \<Rightarrow> string \<Rightarrow> redis_entry option" where
  "live m now k =
     (case m k of
        None \<Rightarrow> None
      | Some e \<Rightarrow> (case rexpiry e of
                     None \<Rightarrow> Some e
                   | Some t \<Rightarrow> if t \<le> now then None else Some e))"

text \<open>\<^verbatim>\<open>INCRBY\<close> and \<^verbatim>\<open>EXPIRE\<close>.\<close>

definition incrby :: "redis_store \<Rightarrow> nat \<Rightarrow> string \<Rightarrow> int \<Rightarrow> int \<times> redis_store" where
  "incrby m now k amount =
     (case live m now k of
        None \<Rightarrow> (amount, m(k \<mapsto> \<lparr>rvalue = amount, rexpiry = None\<rparr>))
      | Some e \<Rightarrow> (rvalue e + amount, m(k \<mapsto> e\<lparr>rvalue := rvalue e + amount\<rparr>)))"

definition expire :: "redis_store \<Rightarrow> nat \<Rightarrow> string \<Rightarrow> nat \<Rightarrow> redis_store" where
  "expire m now k ttl =
     (case live m now k of
        None \<Rightarrow> m
      | Some e \<Rightarrow> m(k \<mapsto> e\<lparr>rexpiry := Some (now + ttl)\<rparr>))"

text \<open>\<^verbatim>\<open>RedisClient.increment\<close>: 0 without a connection; the TTL is set on the first increment.\<close>

definition increment ::
  "redis_store option \<Rightarrow> nat \<Rightarrow> string \<Rightarrow> int \<Rightarrow> nat option \<Rightarrow> int \<times> redis_store option" where
  "increment r now key amount ttl =
     (case r of
        None \<Rightarrow> (0, None)
      | Some m \<Rightarrow>
          (let (v, m1) = incrby m now key amount
           in case ttl of
                Some t \<Rightarrow> if t \<noteq> 0 \<and> v = amount then (v, Some (expire m1 now key t))
                          else (v, Some m1)
              | None \<Rightarrow> (v, Some m1)))"

datatype py_error = ZeroDivisionError

text \<open>
  \<^verbatim>\<open>check_rate_limit\<close>. \<^verbatim>\<open>int(time.time() / window)\<close> is the whole number of windows
  before \<open>now\<close>; a window of 0 makes the division raise.
\<close>

definition check_rate_limit ::
  "redis_store option \<Rightarrow> nat \<Rightarrow> string \<Rightarrow> string \<Rightarrow> int \<Rightarrow> nat
     \<Rightarrow> (py_error + (bool \<times> int \<times> nat)) \<times> redis_store option" where
  "check_rate_limit r now identifier endpoint limit window =
     (if window = 0 then (Inl ZeroDivisionError, r)
      else
        (let current_minute = now div window;
             cache_key = ''ratelimit:'' @ identifier @ '':'' @ endpoint @ '':''
                           @ str_nat current_minute;
             (count, r') = increment r now cache_key 1 (Some window);
             remaining = max 0 (limit - count);
             reset_time = (current_minute + 1) * window;
             allowed = (count \<le> limit)
         in (Inr (allowed, remaining, reset_time), r')))"

text \<open>Successive calls for one identifier and endpoint, at the given clock readings.\<close>

fun check_rate_limits ::
  "redis_store option \<Rightarrow> nat list \<Rightarrow> string \<Rightarrow> string \<Rightarrow> int \<Rightarrow> nat
     \<Rightarrow> (py_error + (bool \<times> int \<times> nat)) list" where
  "check_rate_limits r [] identifier endpoint limit window = []"
| "check_rate_limits r (t # ts) identifier endpoint limit window =
     (let (res, r') = check_rate_limit r t identifier endpoint limit window
      in res # check_rate_limits r' ts identifier endpoint limit window)"

section \<open>Predicates and examples used by the statements\<close>

text \<open>
  The counter stored under a key: absent when the count is 0, otherwise the count with an
  expiry time not before \<open>bound\<close>.
\<close>

definition counter_at :: "redis_store \<Rightarrow> string \<Rightarrow> int \<Rightarrow> nat \<Rightarrow> bool" where
  "counter_at m key c bound \<longleftrightarrow>
     (if c = 0 then m key = None
      else \<exists>x. m key = Some \<lparr>rvalue = c, rexpiry = Some x\<rparr> \<and> bound \<le> x)"

text \<open>
  The widths and ranges that \<^verbatim>\<open>models.Product\<close> declares for the columns the engine
  writes: \<^verbatim>\<open>String(100)\<close> for the external id, the SKU and the barcode,
  \<^verbatim>\<open>String(500)\<close> for name and slug, \<^verbatim>\<open>String(50)\<close> for the unit,
  \<^verbatim>\<open>String(20)\<close> for the HSN code, \<^verbatim>\<open>String(64)\<close> for the checksum, and
  \<^verbatim>\<open>Integer\<close> for quantity and version.
\<close>

definition opt_length :: "string option \<Rightarrow> nat" where
  "opt_length x = (case x of None \<Rightarrow> 0 | Some s \<Rightarrow> length s)"

definition in_int32 :: "int \<Rightarrow> bool" where
  "in_int32 i \<longleftrightarrow> - 2147483648 \<le> i \<and> i \<le> 2147483647"

definition fits_columns :: "Product \<Rightarrow> bool" where
  "fits_columns p \<longleftrightarrow>
     length (p_external_id p) \<le> 100 \<and> length (p_name p) \<le> 500 \<and> length (p_slug p) \<le> 500
     \<and> opt_length (p_unit p) \<le> 50 \<and> opt_length (p_sku p) \<le> 100
     \<and> opt_length (p_barcode p) \<le> 100 \<and> opt_length (p_hsn_code p) \<le> 20
     \<and> opt_length (p_sync_checksum p) \<le> 64
     \<and> in_int32 (p_quantity p) \<and> in_int32 (p_sync_version p)"

text \<open>Rounding of a rational to the nearest hundredth, ties to the even one.\<close>

definition round_half_even :: "rat \<Rightarrow> int" where
  "round_half_even x =
     (let f = \<lfloor>x\<rfloor>; r = x - of_int f
      in if r < 1 / 2 then f else if 1 / 2 < r then f + 1
         else if even f then f else f + 1)"

definition round2 :: "rat \<Rightarrow> rat" where
  "round2 x = of_int (round_half_even (x * 100)) / 100"

text \<open>
  An example platform and example data. The database of the example refuses a row that
  does not fit the declared columns. The digest and the text of a float are stand-ins: the
  digest is the identity, and a float is printed as the number of its hundredths. The
  arithmetic is exact; on the prices of the examples, 100 and 75, exact arithmetic gives
  what the arithmetic of floats gives.
\<close>

definition example_platform :: platform where
  "example_platform =
     \<lparr>db_accepts = fits_columns,
      md5_hexdigest = (\<lambda>s. s),
      str_float = (\<lambda>x. str_int \<lfloor>x * 100\<rfloor>),
      float_sub = (\<lambda>x y. x - y),
      float_div = (\<lambda>x y. x / y),
      float_mul = (\<lambda>x y. x * y),
      float_round2 = round2\<rparr>"

definition example_store :: Store where
  "example_store =
     \<lparr>st_id = 1, st_sync_api_key = ''key-1'', st_is_active = True, st_sync_tier = Some TIER3,
      st_sync_interval_minutes = 30, st_last_sync_at = Some 5\<rparr>"

definition example_db :: "Product list \<Rightarrow> db" where
  "example_db ps =
     \<lparr>stores = [example_store], products = ps, orders = [], sync_logs = [], uuid_supply = 10\<rparr>"

definition example_item :: "string \<Rightarrow> string \<Rightarrow> int \<Rightarrow> SyncProductItem" where
  "example_item e n q =
     \<lparr>external_id = e, name = n, description = None, mrp = 100, selling_price = 75,
      quantity = q, unit = None, sku = None, barcode = None, category = None,
      hsn_code = None, gst_percent = Some 0, updated_at = None\<rparr>"

definition example_raw :: "string option \<Rightarrow> string \<Rightarrow> int \<Rightarrow> RawProductItem" where
  "example_raw e n q =
     \<lparr>raw_external_id = e, raw_name = Some n, raw_description = None, raw_mrp = Some 100,
      raw_selling_price = Some 75, raw_quantity = Some q, raw_unit = None, raw_sku = None,
      raw_barcode = None, raw_category = None, raw_hsn_code = None, raw_gst_percent = None,
      raw_updated_at = None\<rparr>"

text \<open>The row that an earlier session, at second 50, created for \<open>sku-1\<close>.\<close>

definition example_product :: Product where
  "example_product = new_product example_platform 50 3 1 (example_item ''sku-1'' ''Soap'' 5)"

text \<open>
  Successive calls of \<^verbatim>\<open>_upsert_product\<close> for one store, each at its own time and in
  a session that is in order, as the calls of successive requests are; and what each of
  them returns or raises.
\<close>

fun upsert_all ::
  "platform \<Rightarrow> uuid \<Rightarrow> string \<Rightarrow> (datetime \<times> SyncProductItem) list \<Rightarrow> db \<Rightarrow> db" where
  "upsert_all E sid sync_type [] d = d"
| "upsert_all E sid sync_type (u # rest) d =
     upsert_all E sid sync_type rest (snd (upsert_product E (fst u) sid (snd u) sync_type d))"

fun upsert_results ::
  "platform \<Rightarrow> uuid \<Rightarrow> string \<Rightarrow> (datetime \<times> SyncProductItem) list \<Rightarrow> db
     \<Rightarrow> (error + string) list" where
  "upsert_results E sid sync_type [] d = []"
| "upsert_results E sid sync_type (u # rest) d =
     fst (upsert_product E (fst u) sid (snd u) sync_type d)
       # upsert_results E sid sync_type rest
           (snd (upsert_product E (fst u) sid (snd u) sync_type d))"

section \<open>The batch loop\<close>

text \<open>The loop writes products only: stores, orders and the audit log are left alone.\<close>

lemma commit_update_frame:
  "commit_update E sid e row res d = (r, d') \<Longrightarrow>
     stores d' = stores d \<and> orders d' = orders d \<and> sync_logs d' = sync_logs d"
  by (auto simp: commit_update_def split: if_splits)

lemma commit_insert_frame:
  "commit_insert E row res d = (r, d') \<Longrightarrow>
     stores d' = stores d \<and> orders d' = orders d \<and> sync_logs d' = sync_logs d"
  by (auto simp: commit_insert_def split: if_splits)

lemma upsert_product_frame:
  "upsert_product E now sid data ty d = (r, d') \<Longrightarrow>
     stores d' = stores d \<and> orders d' = orders d \<and> sync_logs d' = sync_logs d"
  by (auto simp: upsert_product_def uuid4_def Let_def commit_update_def commit_insert_def
      split: option.splits if_splits)

lemma update_inventory_only_frame:
  "update_inventory_only E now sid data d = (r, d') \<Longrightarrow>
     stores d' = stores d \<and> orders d' = orders d \<and> sync_logs d' = sync_logs d"
  by (auto simp: update_inventory_only_def commit_update_def dest: upsert_product_frame
      split: option.splits if_splits)

lemma sync_step_frame:
  "sync_step E now sid ty data d = (r, d') \<Longrightarrow>
     stores d' = stores d \<and> orders d' = orders d \<and> sync_logs d' = sync_logs d"
  unfolding sync_step_def
  by (auto dest: upsert_product_frame update_inventory_only_frame split: if_splits)

lemma sync_one_frame:
  "sync_one E now sid ty data (s, d) = (s', d') \<Longrightarrow>
     stores d' = stores d \<and> orders d' = orders d \<and> sync_logs d' = sync_logs d"
  unfolding sync_one_def
  by (auto dest: sync_step_frame split: prod.splits sum.splits)

lemma sync_iter_frame:
  "stores (snd (snd (sync_iter E now sid ty data st))) = stores (snd (snd st))
   \<and> orders (snd (snd (sync_iter E now sid ty data st))) = orders (snd (snd st))
   \<and> sync_logs (snd (snd (sync_iter E now sid ty data st))) = sync_logs (snd (snd st))"
proof (cases "fst st")
  case True
  then show ?thesis by (simp add: sync_iter_def)
next
  case False
  obtain s' d' where one: "sync_one E now sid ty data (fst (snd st), snd (snd st)) = (s', d')"
    by (cases "sync_one E now sid ty data (fst (snd st), snd (snd st))")
  from sync_one_frame [OF one] False one show ?thesis
    by (simp add: sync_iter_def)
qed

lemma sync_loop_frame:
  "stores (snd (snd (sync_loop E now sid ty ps st))) = stores (snd (snd st))
   \<and> orders (snd (snd (sync_loop E now sid ty ps st))) = orders (snd (snd st))
   \<and> sync_logs (snd (snd (sync_loop E now sid ty ps st))) = sync_logs (snd (snd st))"
proof (induction ps arbitrary: st)
  case Nil
  then show ?case by simp
next
  case (Cons p ps)
  show ?case
    using Cons.IH [of "sync_iter E now sid ty p st"] sync_iter_frame [of E now sid ty p st]
    by simp
qed

lemma count_success_counters:
  "failed (count_success r s) = failed s \<and> processed (count_success r s) = processed s + 1
   \<and> errors (count_success r s) = errors s
   \<and> created (count_success r s) = created s + (if r = ''created'' then 1 else 0)
   \<and> updated (count_success r s) = updated s + (if r = ''updated'' then 1 else 0)"
  by (simp add: count_success_def Let_def)

lemma count_failure_counters:
  "failed (count_failure data e s) = failed s + 1
   \<and> processed (count_failure data e s) = processed s
   \<and> errors (count_failure data e s) = errors s @ [(external_id data, e)]
   \<and> created (count_failure data e s) = created s
   \<and> updated (count_failure data e s) = updated s"
  by (simp add: count_failure_def)

text \<open>Every record is counted once, as processed or as failed.\<close>

lemma sync_one_total:
  "processed (fst (sync_one E now sid ty data sd)) + failed (fst (sync_one E now sid ty data sd))
     = processed (fst sd) + failed (fst sd) + 1"
  by (simp add: sync_one_def count_success_counters count_failure_counters
      split: prod.splits sum.splits)

lemma sync_iter_total:
  "processed (fst (snd (sync_iter E now sid ty data st)))
     + failed (fst (snd (sync_iter E now sid ty data st)))
     = processed (fst (snd st)) + failed (fst (snd st)) + 1"
  using sync_one_total [of E now sid ty data "snd st"]
  by (simp add: sync_iter_def count_failure_counters)

lemma sync_loop_total:
  "processed (fst (snd (sync_loop E now sid ty ps st)))
     + failed (fst (snd (sync_loop E now sid ty ps st)))
     = processed (fst (snd st)) + failed (fst (snd st)) + int (length ps)"
proof (induction ps arbitrary: st)
  case Nil
  then show ?case by simp
next
  case (Cons p ps)
  show ?case
    using Cons.IH [of "sync_iter E now sid ty p st"] sync_iter_total [of E now sid ty p st]
    by simp
qed

text \<open>
  The session is broken after an iteration exactly when it was broken before or the
  record failed; once broken it stays broken and the tables stay as they are.
\<close>

lemma sync_one_failed_iff:
  "failed (fst (sync_one E now sid ty data sd)) =
     failed (fst sd) + (if isl (fst (sync_step E now sid ty data (snd sd))) then 1 else 0)"
  by (auto simp: sync_one_def count_success_counters count_failure_counters
      split: prod.splits sum.splits)

lemma sync_iter_flag:
  "fst (sync_iter E now sid ty data st) \<longleftrightarrow>
     fst st \<or> failed (fst (snd (sync_iter E now sid ty data st))) \<noteq> failed (fst (snd st))"
  using sync_one_failed_iff [of E now sid ty data "snd st"]
  by (simp add: sync_iter_def count_failure_counters)

lemma sync_iter_failed_mono:
  "failed (fst (snd st)) \<le> failed (fst (snd (sync_iter E now sid ty data st)))"
  using sync_one_failed_iff [of E now sid ty data "snd st"]
  by (simp add: sync_iter_def count_failure_counters)

lemma sync_loop_failed_mono:
  "failed (fst (snd st)) \<le> failed (fst (snd (sync_loop E now sid ty ps st)))"
proof (induction ps arbitrary: st)
  case Nil
  then show ?case by simp
next
  case (Cons p ps)
  show ?case
    using Cons.IH [of "sync_iter E now sid ty p st"] sync_iter_failed_mono [of st E now sid ty p]
    by simp
qed

lemma sync_loop_flag:
  "fst (sync_loop E now sid ty ps st) \<longleftrightarrow>
     fst st \<or> failed (fst (snd (sync_loop E now sid ty ps st))) \<noteq> failed (fst (snd st))"
proof (induction ps arbitrary: st)
  case Nil
  then show ?case by simp
next
  case (Cons p ps)
  show ?case
    using Cons.IH [of "sync_iter E now sid ty p st"] sync_iter_flag [of E now sid ty p st]
      sync_iter_failed_mono [of st E now sid ty p]
      sync_loop_failed_mono [of "sync_iter E now sid ty p st" E now sid ty ps]
    by auto
qed

lemma sync_loop_broken:
  "fst (sync_loop E now sid ty ps (True, s, d))
   \<and> snd (snd (sync_loop E now sid ty ps (True, s, d))) = d"
proof (induction ps arbitrary: s)
  case Nil
  then show ?case by simp
next
  case (Cons p ps)
  show ?case
    using Cons.IH [of "count_failure p PendingRollbackError s"] by (simp add: sync_iter_def)
qed

lemma find_replace_first:
  "find P xs = Some x \<Longrightarrow> P y \<Longrightarrow> find P (replace_first P y xs) = Some y"
  by (induction xs) (auto split: if_splits)

lemma find_holds: "find P xs = Some x \<Longrightarrow> P x"
  by (induction xs) (auto split: if_splits)

lemma length_replace_first [simp]: "length (replace_first P y xs) = length xs"
  by (induction xs) auto

text \<open>What \<^verbatim>\<open>process_batch_sync\<close> gives for a store that exists.\<close>

lemma process_batch_sync_found:
  assumes "find (\<lambda>s. st_id s = sid) (stores d) = Some store"
  shows "process_batch_sync E now sid ty ps d =
     (if fst (sync_loop E now sid ty ps (False, stats0, d\<lparr>uuid_supply := Suc (uuid_supply d)\<rparr>))
      then Inl (PendingRollbackError,
             snd (snd (sync_loop E now sid ty ps
                         (False, stats0, d\<lparr>uuid_supply := Suc (uuid_supply d)\<rparr>))))
      else Inr (\<lparr>r_success = (failed (fst (snd (sync_loop E now sid ty ps (False, stats0, d\<lparr>uuid_supply := Suc (uuid_supply d)\<rparr>)))) = 0),
           r_sync_id = uuid_supply d,
           r_processed = processed (fst (snd (sync_loop E now sid ty ps (False, stats0, d\<lparr>uuid_supply := Suc (uuid_supply d)\<rparr>)))),
           r_created = created (fst (snd (sync_loop E now sid ty ps (False, stats0, d\<lparr>uuid_supply := Suc (uuid_supply d)\<rparr>)))),
           r_updated = updated (fst (snd (sync_loop E now sid ty ps (False, stats0, d\<lparr>uuid_supply := Suc (uuid_supply d)\<rparr>)))),
           r_failed = failed (fst (snd (sync_loop E now sid ty ps (False, stats0, d\<lparr>uuid_supply := Suc (uuid_supply d)\<rparr>)))),
           r_errors = errors (fst (snd (sync_loop E now sid ty ps (False, stats0, d\<lparr>uuid_supply := Suc (uuid_supply d)\<rparr>)))),
           r_next_sync_recommended_at = calculate_next_sync_time now (st_sync_tier store),
           r_duration_seconds = 0\<rparr>,
          log_sync now sid (uuid_supply d) ty
            (fst (snd (sync_loop E now sid ty ps (False, stats0, d\<lparr>uuid_supply := Suc (uuid_supply d)\<rparr>)))) 0
            ((snd (snd (sync_loop E now sid ty ps (False, stats0, d\<lparr>uuid_supply := Suc (uuid_supply d)\<rparr>))))
               \<lparr>stores := replace_first (\<lambda>s. st_id s = sid) (store\<lparr>st_last_sync_at := Some now\<rparr>)
                   (stores d)\<rparr>)))"
  using assms
    sync_loop_frame [of E now sid ty ps "(False, stats0, d\<lparr>uuid_supply := Suc (uuid_supply d)\<rparr>)"]
  by (auto simp: process_batch_sync_def uuid4_def Let_def split: prod.splits)


lemma str_nat_digit: "n < 10 \<Longrightarrow> str_nat n = [''0123456789'' ! n]"
  by (subst str_nat.simps) simp

lemma str_nat_10000: "str_nat 10000 = ''10000''"
  by (simp add: str_nat.simps [of 10000] str_nat.simps [of 1000] str_nat.simps [of 100]
      str_nat.simps [of 10] str_nat_digit)

lemma str_nat_7500: "str_nat 7500 = ''7500''"
  by (simp add: str_nat.simps [of 7500] str_nat.simps [of 750] str_nat.simps [of 75]
      str_nat_digit)

lemma example_checksum:
  "0 \<le> q \<Longrightarrow>
     calculate_checksum example_platform (example_item e n q)
       = n @ ''|10000|7500|'' @ str_nat (nat q)"
  by (simp add: calculate_checksum_def example_platform_def example_item_def str_int_def
      str_nat_10000 str_nat_7500)


lemma length_generate_slug: "length (generate_slug n) \<le> 500"
  by (simp add: generate_slug_def)

lemma length_str_nat_digit: "n < 10 \<Longrightarrow> length (str_nat n) = 1"
  by (simp add: str_nat_digit)

lemma example_new_row_fits:
  assumes "length e \<le> 100" "length n \<le> 40" "0 \<le> q" "q < 10"
  shows "db_accepts example_platform (new_product example_platform now pid sid (example_item e n q))"
proof -
  have "length (calculate_checksum example_platform (example_item e n q)) \<le> 64"
    using assms by (simp add: example_checksum length_str_nat_digit)
  moreover have "p_sync_checksum (new_product example_platform now pid sid (example_item e n q))
      = Some (calculate_checksum example_platform (example_item e n q))"
    by (simp add: new_product_def)
  ultimately show ?thesis
    using assms
    by (simp add: example_platform_def fits_columns_def opt_length_def in_int32_def
        length_generate_slug)
      (simp add: new_product_def example_item_def length_generate_slug)
qed

lemma example_item_sel [simp]:
  "external_id (example_item e n q) = e" "name (example_item e n q) = n"
  "quantity (example_item e n q) = q" "mrp (example_item e n q) = 100"
  "selling_price (example_item e n q) = 75"
  by (simp_all add: example_item_def)

lemma example_db_sel [simp]:
  "stores (example_db ps) = [example_store]" "products (example_db ps) = ps"
  "orders (example_db ps) = []" "sync_logs (example_db ps) = []"
  "uuid_supply (example_db ps) = 10"
  by (simp_all add: example_db_def)

lemma example_store_found:
  "find (\<lambda>s. st_id s = 1) (stores (example_db ps)) = Some example_store"
  by (simp add: example_store_def)

lemma example_long_id_refused:
  "\<not> db_accepts example_platform
       (new_product example_platform now pid sid (example_item (replicate 101 CHR ''x'') n q))"
  by (simp add: example_platform_def fits_columns_def new_product_def)

text \<open>A batch whose only record the database refuses: the external id has 101 characters.\<close>

lemma example_total_failure:
  "process_batch_sync example_platform 100 1 ''full''
       [example_item (replicate 101 CHR ''x'') ''Soap'' 5] (example_db []) =
     Inl (PendingRollbackError, (example_db [])\<lparr>uuid_supply := 12\<rparr>)"
  by (simp add: process_batch_sync_def uuid4_def example_store_def sync_iter_def sync_one_def
      sync_step_def upsert_product_def find_product_def commit_insert_def
      example_long_id_refused count_failure_def stats0_def Let_def)


section \<open>Response and audit row\<close>

lemma sync_loop_logs:
  "sync_logs (snd (snd (sync_loop E now sid ty ps (b, s, d)))) = sync_logs d"
  using sync_loop_frame [of E now sid ty ps "(b, s, d)"] by simp

lemma sync_loop_stores:
  "stores (snd (snd (sync_loop E now sid ty ps (b, s, d)))) = stores d"
  using sync_loop_frame [of E now sid ty ps "(b, s, d)"] by simp



section \<open>The tenant's last synchronisation time\<close>

text \<open>
  C3. For a store that exists, a session in which no record failed sets the store's
  \<open>last_sync_at\<close> to the current time and appends one audit row for the store. A
  session in which a record failed, be it one record or all of them, ends with
  \<open>PendingRollbackError\<close>: \<open>last_sync_at\<close> stays as it was, and no audit row is
  written.
\<close>

theorem failed_record_ends_session_without_audit_row:
  assumes "find (\<lambda>s. st_id s = sid) (stores d) = Some store"
  shows "if failed (fst (snd (sync_loop E now sid ty ps
                 (False, stats0, d\<lparr>uuid_supply := Suc (uuid_supply d)\<rparr>)))) = 0
         then \<exists>r d'. process_batch_sync E now sid ty ps d = Inr (r, d')
              \<and> find (\<lambda>s. st_id s = sid) (stores d') = Some (store\<lparr>st_last_sync_at := Some now\<rparr>)
              \<and> length (sync_logs d') = Suc (length (sync_logs d))
              \<and> log_store_id (last (sync_logs d')) = sid
              \<and> log_id (last (sync_logs d')) = r_sync_id r
         else \<exists>d'. process_batch_sync E now sid ty ps d = Inl (PendingRollbackError, d')
              \<and> stores d' = stores d \<and> sync_logs d' = sync_logs d"
proof -
  let ?st = "(False, stats0, d\<lparr>uuid_supply := Suc (uuid_supply d)\<rparr>)"
  let ?L = "sync_loop E now sid ty ps ?st"
  have sid: "st_id (store\<lparr>st_last_sync_at := Some now\<rparr>) = sid"
    using find_holds [OF assms] by simp
  have flag: "fst ?L \<longleftrightarrow> failed (fst (snd ?L)) \<noteq> 0"
    using sync_loop_flag [of E now sid ty ps ?st] by (simp add: stats0_def)
  have logs: "sync_logs (snd (snd ?L)) = sync_logs d"
    using sync_loop_logs [of E now sid ty ps False stats0 "d\<lparr>uuid_supply := Suc (uuid_supply d)\<rparr>"]
    by simp
  have stores: "stores (snd (snd ?L)) = stores d"
    using sync_loop_stores [of E now sid ty ps False stats0 "d\<lparr>uuid_supply := Suc (uuid_supply d)\<rparr>"]
    by simp
  show ?thesis
  proof (cases "failed (fst (snd ?L)) = 0")
    case True
    with flag have ok: "\<not> fst ?L" by simp
    show ?thesis
      using True ok find_replace_first [OF assms, of "store\<lparr>st_last_sync_at := Some now\<rparr>"] sid
      unfolding process_batch_sync_found [OF assms]
      by (simp add: log_sync_def logs)
  next
    case False
    with flag have broken: "fst ?L" by simp
    show ?thesis
      using False broken logs stores
      unfolding process_batch_sync_found [OF assms]
      by simp
  qed
qed

text \<open>
  The store was last synchronised at second 5. A session at second 100 whose only record
  the database refuses (nothing processed) raises; the store and the audit log are as
  before, and the endpoint answers with status 500.
\<close>

lemma example_total_failure_endpoint:
  "sync_products_batch example_platform 100 ''key-1''
       \<lparr>raw_store_id = 1, raw_sync_type = ''full'', raw_timestamp = 100,
        raw_products = [example_raw (Some (replicate 101 CHR ''x'')) ''Soap'' 5]\<rparr>
       (example_db []) =
     (Inl HTTP_500, (example_db [])\<lparr>uuid_supply := 12\<rparr>)"
proof -
  have item: "validate_item (example_raw (Some (replicate 101 CHR ''x'')) ''Soap'' 5)
      = Some (example_item (replicate 101 CHR ''x'') ''Soap'' 5)"
    by (simp add: validate_item_def example_raw_def example_item_def)
  show ?thesis
    by (simp add: sync_products_batch_def verify_sync_api_key_def validate_request_def item
        example_total_failure [unfolded One_nat_def] example_store_def)
qed

theorem failed_record_ends_session_without_audit_row_witness:
  "st_last_sync_at example_store = Some 5
   \<and> process_batch_sync example_platform 100 1 ''full''
       [example_item (replicate 101 CHR ''x'') ''Soap'' 5] (example_db []) =
     Inl (PendingRollbackError, (example_db [])\<lparr>uuid_supply := 12\<rparr>)
   \<and> stores ((example_db [])\<lparr>uuid_supply := 12\<rparr>) = [example_store]
   \<and> sync_logs ((example_db [])\<lparr>uuid_supply := 12\<rparr>) = []
   \<and> sync_products_batch example_platform 100 ''key-1''
       \<lparr>raw_store_id = 1, raw_sync_type = ''full'', raw_timestamp = 100,
        raw_products = [example_raw (Some (replicate 101 CHR ''x'')) ''Soap'' 5]\<rparr>
       (example_db []) =
     (Inl HTTP_500, (example_db [])\<lparr>uuid_supply := 12\<rparr>)"
proof -
  have failed: "failed (fst (snd (sync_loop example_platform 100 1 ''full''
       [example_item (replicate 101 CHR ''x'') ''Soap'' 5]
       (False, stats0, (example_db [])\<lparr>uuid_supply := Suc (uuid_supply (example_db []))\<rparr>)))) \<noteq> 0"
    by (simp add: sync_iter_def sync_one_def sync_step_def upsert_product_def find_product_def
        uuid4_def commit_insert_def example_long_id_refused count_failure_def stats0_def)
  from failed_record_ends_session_without_audit_row [where E = example_platform and now = 100
      and sid = 1 and ty = "''full''" and d = "example_db []" and store = example_store
      and ps = "[example_item (replicate 101 CHR ''x'') ''Soap'' 5]", OF example_store_found]
    failed
  obtain d' where run: "process_batch_sync example_platform 100 1 ''full''
       [example_item (replicate 101 CHR ''x'') ''Soap'' 5] (example_db []) =
       Inl (PendingRollbackError, d')"
    and same: "stores d' = stores (example_db [])" "sync_logs d' = sync_logs (example_db [])"
    by auto
  from run example_total_failure have d': "d' = (example_db [])\<lparr>uuid_supply := 12\<rparr>"
    by simp
  have last: "st_last_sync_at example_store = Some 5"
    by (simp add: example_store_def)
  from run same last example_total_failure_endpoint show ?thesis
    unfolding d' by simp
qed

lemma example_accepts [simp]: "db_accepts example_platform = fits_columns"
  by (simp add: example_platform_def)

lemma example_product_sel [simp]:
  "p_store_id example_product = 1" "p_external_id example_product = ''sku-1''"
  "p_sync_version example_product = 1" "p_quantity example_product = 5"
  "p_updated_at example_product = 50" "p_name example_product = ''Soap''"
  "p_sync_checksum example_product
     = Some (calculate_checksum example_platform (example_item ''sku-1'' ''Soap'' 5))"
  by (simp_all add: example_product_def new_product_def)

lemma example_product_fits: "fits_columns example_product"
  using example_new_row_fits [of "''sku-1''" "''Soap''" 5 50 3 1]
  by (simp add: example_product_def)

lemma inventory_row_fits:
  "fits_columns product \<Longrightarrow> in_int32 (quantity data)
     \<Longrightarrow> fits_columns (inventory_row now product data)"
  by (simp add: fits_columns_def inventory_row_def)

lemma example_product_found [simp]:
  "find_product (example_db [example_product]) (Suc 0) ''sku-1'' = Some example_product"
  by (simp add: find_product_def is_row_def)

section \<open>Delta synchronisation of unchanged records\<close>


lemma find_product_supply [simp]:
  "find_product (d\<lparr>uuid_supply := n\<rparr>) sid e = find_product d sid e"
  by (simp add: find_product_def)






section \<open>The inventory-only path\<close>

lemma find_None_replace_first:
  "find P xs = None \<Longrightarrow> replace_first P y xs = xs"
  by (induction xs) (auto split: if_splits)

lemma filter_replace_first:
  "P y \<Longrightarrow> filter (\<lambda>x. \<not> P x) (replace_first P y xs) = filter (\<lambda>x. \<not> P x) xs"
  by (induction xs) auto

lemma inventory_row_is_row:
  "is_row sid e product \<Longrightarrow> is_row sid e (inventory_row now product data)"
  by (simp add: is_row_def inventory_row_def)

lemma update_inventory_only_existing:
  assumes "find_product d sid (external_id data) = Some product"
  shows "update_inventory_only E now sid data d =
           (if db_accepts E (inventory_row now product data)
            then (Inr ''updated'',
                  d\<lparr>products := replace_first (is_row sid (external_id data))
                                   (inventory_row now product data) (products d)\<rparr>)
            else (Inl DBAPIError, d))"
  using assms by (simp add: update_inventory_only_def commit_update_def)

text \<open>
  C7. As the code has it: for an existing item the inventory-only path changes the fields
  \<open>quantity\<close>, \<open>is_in_stock\<close>, \<open>last_synced_at\<close> and \<open>updated_at\<close>, and no
  other: the row after the call is the row before it, or the row before it with these
  four fields assigned; putting the four old values back gives the old row. The other
  rows of the table are untouched.
\<close>

theorem inventory_only_frame:
  assumes found: "find_product d sid (external_id data) = Some product"
    and run: "update_inventory_only E now sid data d = (res, d')"
  shows "\<exists>row. find_product d' sid (external_id data) = Some row
           \<and> (row = product
              \<or> row = product\<lparr>p_quantity := quantity data,
                               p_is_in_stock := (0 < quantity data),
                               p_last_synced_at := Some now,
                               p_updated_at := now\<rparr>)
           \<and> row\<lparr>p_quantity := p_quantity product,
                  p_is_in_stock := p_is_in_stock product,
                  p_last_synced_at := p_last_synced_at product,
                  p_updated_at := p_updated_at product\<rparr> = product
           \<and> filter (\<lambda>p. \<not> is_row sid (external_id data) p) (products d')
               = filter (\<lambda>p. \<not> is_row sid (external_id data) p) (products d)
           \<and> length (products d') = length (products d)"
proof (cases "db_accepts E (inventory_row now product data)")
  case True
  have row: "is_row sid (external_id data) product"
    using found find_holds unfolding find_product_def by fast
  have row': "is_row sid (external_id data) (inventory_row now product data)"
    by (rule inventory_row_is_row [OF row])
  from True run update_inventory_only_existing [OF found, of E now]
  have d': "d' = d\<lparr>products := replace_first (is_row sid (external_id data))
                                   (inventory_row now product data) (products d)\<rparr>"
    by simp
  have "find_product d' sid (external_id data) = Some (inventory_row now product data)"
    unfolding d' find_product_def
    using find_replace_first [OF found [unfolded find_product_def] row'] by simp
  then show ?thesis
    unfolding d'
    using filter_replace_first [where P = "is_row sid (external_id data)"
        and y = "inventory_row now product data" and xs = "products d", OF row']
    by (simp add: inventory_row_def)
next
  case False
  from False run update_inventory_only_existing [OF found, of E now]
  have "d' = d" by simp
  with found show ?thesis by simp
qed

lemma example_inventory_update:
  "update_inventory_only example_platform 100 1 (example_item ''sku-1'' ''Soap'' 7)
     (example_db [example_product]) =
   (Inr ''updated'',
    example_db [example_product\<lparr>p_quantity := 7, p_is_in_stock := True,
                                  p_last_synced_at := Some 100, p_updated_at := 100\<rparr>])"
proof -
  have ok: "fits_columns (inventory_row 100 example_product (example_item ''sku-1'' ''Soap'' 7))"
    by (rule inventory_row_fits [OF example_product_fits]) (simp add: in_int32_def)
  have row: "inventory_row 100 example_product (example_item ''sku-1'' ''Soap'' 7)
      = example_product\<lparr>p_quantity := 7, p_is_in_stock := True,
                         p_last_synced_at := Some 100, p_updated_at := 100\<rparr>"
    by (simp add: inventory_row_def)
  have found: "find_product (example_db [example_product]) 1
      (external_id (example_item ''sku-1'' ''Soap'' 7)) = Some example_product"
    by simp
  show ?thesis
    unfolding update_inventory_only_existing [OF found]
    using ok by (simp add: row is_row_def example_db_def)
qed

theorem inventory_only_frame_witness:
  "\<exists>row. find_product
            (example_db [example_product\<lparr>p_quantity := 7, p_is_in_stock := True,
                                          p_last_synced_at := Some 100, p_updated_at := 100\<rparr>])
            1 ''sku-1'' = Some row
     \<and> row\<lparr>p_quantity := p_quantity example_product,
            p_is_in_stock := p_is_in_stock example_product,
            p_last_synced_at := p_last_synced_at example_product,
            p_updated_at := p_updated_at example_product\<rparr> = example_product"
proof -
  have found: "find_product (example_db [example_product]) 1
      (external_id (example_item ''sku-1'' ''Soap'' 7)) = Some example_product"
    by simp
  have e: "external_id (example_item ''sku-1'' ''Soap'' 7) = ''sku-1''"
    by simp
  from inventory_only_frame [OF found example_inventory_update]
  show ?thesis unfolding e by blast
qed

text \<open>
  The claim as written fails: \<open>updated_at\<close> is a stored field of the item outside
  the three the claim names, and the call moves it from 50 to 100.
\<close>

theorem inventory_only_changes_updated_at:
  "p_updated_at example_product = 50
   \<and> update_inventory_only example_platform 100 1 (example_item ''sku-1'' ''Soap'' 7)
       (example_db [example_product]) =
     (Inr ''updated'',
      example_db [example_product\<lparr>p_quantity := 7, p_is_in_stock := True,
                                    p_last_synced_at := Some 100, p_updated_at := 100\<rparr>])
   \<and> p_updated_at (example_product\<lparr>p_quantity := 7, p_is_in_stock := True,
                                    p_last_synced_at := Some 100, p_updated_at := 100\<rparr>) = 100"
  using example_inventory_update by simp

section \<open>Creation and the sync version\<close>

lemma find_append_new:
  "find P xs = None \<Longrightarrow> P y \<Longrightarrow> find P (xs @ [y]) = Some y"
  by (induction xs) (auto split: if_splits)

lemma new_product_is_row: "is_row sid (external_id data) (new_product E now pid sid data)"
  by (simp add: is_row_def new_product_def)

lemma updated_product_is_row:
  "is_row sid e existing \<Longrightarrow> is_row sid e (updated_product E now existing data)"
  by (simp add: is_row_def updated_product_def update_product_fields_def Let_def)

lemma upsert_product_absent:
  assumes "find_product d sid (external_id data) = None"
    and "db_accepts E (new_product E now (uuid_supply d) sid data)"
  shows "upsert_product E now sid data ty d =
           (Inr ''created'',
            d\<lparr>uuid_supply := Suc (uuid_supply d),
              products := products d @ [new_product E now (uuid_supply d) sid data]\<rparr>)"
  using assms by (simp add: upsert_product_def uuid4_def commit_insert_def)

lemma upsert_product_write:
  assumes "find_product d sid (external_id data) = Some existing"
    and "ty \<noteq> ''delta'' \<or> p_sync_checksum existing \<noteq> Some (calculate_checksum E data)"
    and "db_accepts E (updated_product E now existing data)"
  shows "upsert_product E now sid data ty d =
           (Inr ''updated'',
            d\<lparr>products := replace_first (is_row sid (external_id data))
                             (updated_product E now existing data) (products d)\<rparr>)"
  using assms by (auto simp: upsert_product_def commit_update_def)

text \<open>A call that wrote or would have written, and did not raise, had its row accepted.\<close>

lemma upsert_product_absent_returned:
  assumes "find_product d sid (external_id data) = None"
    and "\<not> isl (fst (upsert_product E now sid data ty d))"
  shows "db_accepts E (new_product E now (uuid_supply d) sid data)"
  using assms by (auto simp: upsert_product_def uuid4_def commit_insert_def split: if_splits)

lemma upsert_product_write_returned:
  assumes "find_product d sid (external_id data) = Some existing"
    and "ty \<noteq> ''delta'' \<or> p_sync_checksum existing \<noteq> Some (calculate_checksum E data)"
    and "\<not> isl (fst (upsert_product E now sid data ty d))"
  shows "db_accepts E (updated_product E now existing data)"
  using assms by (auto simp: upsert_product_def commit_update_def split: if_splits)

lemma created_row:
  assumes "find_product d sid (external_id data) = None"
    and "db_accepts E (new_product E now (uuid_supply d) sid data)"
  shows "find_product (snd (upsert_product E now sid data ty d)) sid (external_id data)
           = Some (new_product E now (uuid_supply d) sid data)"
  unfolding upsert_product_absent [OF assms]
  using find_append_new [OF assms(1) [unfolded find_product_def] new_product_is_row]
  by (simp add: find_product_def)

lemma written_row:
  assumes "find_product d sid (external_id data) = Some existing"
    and "ty \<noteq> ''delta'' \<or> p_sync_checksum existing \<noteq> Some (calculate_checksum E data)"
    and "db_accepts E (updated_product E now existing data)"
  shows "find_product (snd (upsert_product E now sid data ty d)) sid (external_id data)
           = Some (updated_product E now existing data)"
proof -
  have "is_row sid (external_id data) existing"
    using assms(1) find_holds unfolding find_product_def by fast
  from find_replace_first [OF assms(1) [unfolded find_product_def] updated_product_is_row [OF this]]
  show ?thesis
    unfolding upsert_product_write [OF assms] by (simp add: find_product_def)
qed

lemma updated_product_version:
  "p_sync_version (updated_product E now existing data) = p_sync_version existing + 1
   \<and> p_sync_checksum (updated_product E now existing data) = Some (calculate_checksum E data)"
  by (simp add: updated_product_def update_product_fields_def Let_def)

lemma upsert_all_version:
  assumes ids: "\<forall>u\<in>set us. external_id (snd u) = e"
    and found: "find_product d sid e = Some existing"
    and sum: "p_sync_checksum existing = Some c"
    and adj: "distinct_adj (c # map (\<lambda>u. calculate_checksum E (snd u)) us)"
    and ret: "\<forall>r\<in>set (upsert_results E sid ''delta'' us d). \<not> isl r"
  shows "\<exists>row. find_product (upsert_all E sid ''delta'' us d) sid e = Some row
           \<and> p_sync_version row = p_sync_version existing + int (length us)"
  using ids found sum adj ret
proof (induction us arbitrary: d existing c)
  case Nil
  then show ?case by simp
next
  case (Cons u us)
  from Cons.prems(1) have e: "external_id (snd u) = e" by simp
  from Cons.prems(4) have ne: "p_sync_checksum existing \<noteq> Some (calculate_checksum E (snd u))"
    using Cons.prems(3) by simp
  from Cons.prems(5) have ret1: "\<not> isl (fst (upsert_product E (fst u) sid (snd u) ''delta'' d))"
    and ret': "\<forall>r\<in>set (upsert_results E sid ''delta'' us
                  (snd (upsert_product E (fst u) sid (snd u) ''delta'' d))). \<not> isl r"
    by simp_all
  have ok: "db_accepts E (updated_product E (fst u) existing (snd u))"
    using upsert_product_write_returned [of d sid "snd u" existing "''delta''" E "fst u"]
      Cons.prems(2) ne ret1 e by simp
  have found': "find_product (snd (upsert_product E (fst u) sid (snd u) ''delta'' d)) sid e
      = Some (updated_product E (fst u) existing (snd u))"
    using written_row [of d sid "snd u" existing "''delta''" E "fst u"] Cons.prems(2) ne ok e
    by simp
  have adj': "distinct_adj (calculate_checksum E (snd u) # map (\<lambda>u. calculate_checksum E (snd u)) us)"
    using Cons.prems(4) by simp
  from Cons.IH [OF _ found' _ adj' ret'] Cons.prems(1)
    updated_product_version [of E "fst u" existing "snd u"]
  show ?case by auto
qed

lemma upsert_all_from_absent:
  assumes ids: "\<forall>u\<in>set us. external_id (snd u) = e"
    and absent: "find_product d sid e = None"
    and ne: "us \<noteq> []"
    and adj: "distinct_adj (map (\<lambda>u. calculate_checksum E (snd u)) us)"
    and ret: "\<forall>r\<in>set (upsert_results E sid ''delta'' us d). \<not> isl r"
  shows "\<exists>row. find_product (upsert_all E sid ''delta'' us d) sid e = Some row
           \<and> p_sync_version row = int (length us)"
proof -
  from ne obtain u rest where us: "us = u # rest" by (cases us) auto
  from ids us have e: "external_id (snd u) = e" and ids': "\<forall>u\<in>set rest. external_id (snd u) = e"
    by simp_all
  from ret us have ret1: "\<not> isl (fst (upsert_product E (fst u) sid (snd u) ''delta'' d))"
    and ret': "\<forall>r\<in>set (upsert_results E sid ''delta'' rest
                  (snd (upsert_product E (fst u) sid (snd u) ''delta'' d))). \<not> isl r"
    by simp_all
  have ok: "db_accepts E (new_product E (fst u) (uuid_supply d) sid (snd u))"
    using upsert_product_absent_returned [of d sid "snd u" E "fst u" "''delta''"] absent ret1 e
    by simp
  have found: "find_product (snd (upsert_product E (fst u) sid (snd u) ''delta'' d)) sid e
      = Some (new_product E (fst u) (uuid_supply d) sid (snd u))"
    using created_row [of d sid "snd u" E "fst u" "''delta''"] absent ok e by simp
  have sum: "p_sync_checksum (new_product E (fst u) (uuid_supply d) sid (snd u))
      = Some (calculate_checksum E (snd u))"
    by (simp add: new_product_def)
  have adj': "distinct_adj (calculate_checksum E (snd u) # map (\<lambda>u. calculate_checksum E (snd u)) rest)"
    using adj us by simp
  from upsert_all_version [OF ids' found sum adj' ret']
  show ?thesis unfolding us by (simp add: new_product_def)
qed



text \<open>
  C4. As the code has it: the version is 1 on creation and goes up by exactly one on each
  write of \<^verbatim>\<open>_upsert_product\<close> (any full upsert, and a delta upsert whose checksum
  differs from the stored one), while the inventory-only path leaves the version as it
  was, also when it writes the item. Each write is taken under the hypothesis that the
  database accepts the row of that write. N successive delta upserts to an external id
  that was absent, none of which raised and each with a checksum different from the one
  before it, leave the version at N.
\<close>

theorem sync_version_counts_upsert_writes:
  "(find_product d sid e = None \<and> external_id data = e
      \<and> db_accepts E (new_product E now (uuid_supply d) sid data)
      \<longrightarrow> (\<exists>row. find_product (snd (upsert_product E now sid data ty d)) sid e = Some row
             \<and> p_sync_version row = 1))
   \<and> (find_product d sid e = Some existing \<and> external_id data = e
      \<and> (ty \<noteq> ''delta'' \<or> p_sync_checksum existing \<noteq> Some (calculate_checksum E data))
      \<and> db_accepts E (updated_product E now existing data)
      \<longrightarrow> (\<exists>row. find_product (snd (upsert_product E now sid data ty d)) sid e = Some row
             \<and> p_sync_version row = p_sync_version existing + 1))
   \<and> (find_product d sid e = Some existing \<and> external_id data = e
      \<longrightarrow> (\<exists>row. find_product (snd (update_inventory_only E now sid data d)) sid e = Some row
             \<and> p_sync_version row = p_sync_version existing
             \<and> (db_accepts E (inventory_row now existing data)
                  \<longrightarrow> p_quantity row = quantity data)))
   \<and> (find_product d sid e = None \<and> us \<noteq> [] \<and> (\<forall>u\<in>set us. external_id (snd u) = e)
      \<and> distinct_adj (map (\<lambda>u. calculate_checksum E (snd u)) us)
      \<and> (\<forall>r\<in>set (upsert_results E sid ''delta'' us d). \<not> isl r)
      \<longrightarrow> (\<exists>row. find_product (upsert_all E sid ''delta'' us d) sid e = Some row
             \<and> p_sync_version row = int (length us)))"
proof (intro conjI impI)
  assume h: "find_product d sid e = None \<and> external_id data = e
      \<and> db_accepts E (new_product E now (uuid_supply d) sid data)"
  then have ok: "db_accepts E (new_product E now (uuid_supply d) sid data)" by simp
  from h created_row [of d sid data E now ty, OF _ ok]
  show "\<exists>row. find_product (snd (upsert_product E now sid data ty d)) sid e = Some row
          \<and> p_sync_version row = 1"
    by (auto simp: new_product_def)
next
  assume h: "find_product d sid e = Some existing \<and> external_id data = e
      \<and> (ty \<noteq> ''delta'' \<or> p_sync_checksum existing \<noteq> Some (calculate_checksum E data))
      \<and> db_accepts E (updated_product E now existing data)"
  then have ok: "db_accepts E (updated_product E now existing data)" by simp
  from h written_row [of d sid data existing ty E now, OF _ _ ok]
    updated_product_version [of E now existing data]
  show "\<exists>row. find_product (snd (upsert_product E now sid data ty d)) sid e = Some row
          \<and> p_sync_version row = p_sync_version existing + 1"
    by auto
next
  assume h: "find_product d sid e = Some existing \<and> external_id data = e"
  then have row: "is_row sid e existing"
    using find_holds unfolding find_product_def by fast
  have row': "is_row sid e (inventory_row now existing data)"
    by (rule inventory_row_is_row [OF row])
  from h have found: "find_product d sid (external_id data) = Some existing" by simp
  show "\<exists>row. find_product (snd (update_inventory_only E now sid data d)) sid e = Some row
          \<and> p_sync_version row = p_sync_version existing
          \<and> (db_accepts E (inventory_row now existing data) \<longrightarrow> p_quantity row = quantity data)"
  proof (cases "db_accepts E (inventory_row now existing data)")
    case True
    have "find_product (snd (update_inventory_only E now sid data d)) sid e
        = Some (inventory_row now existing data)"
      unfolding update_inventory_only_existing [OF found]
      using True h find_replace_first [OF found [unfolded find_product_def],
          of "inventory_row now existing data"] row'
      by (simp add: find_product_def)
    then show ?thesis by (simp add: inventory_row_def)
  next
    case False
    have "find_product (snd (update_inventory_only E now sid data d)) sid e = Some existing"
      unfolding update_inventory_only_existing [OF found]
      using False h by simp
    with False show ?thesis by simp
  qed
next
  assume h: "find_product d sid e = None \<and> us \<noteq> [] \<and> (\<forall>u\<in>set us. external_id (snd u) = e)
      \<and> distinct_adj (map (\<lambda>u. calculate_checksum E (snd u)) us)
      \<and> (\<forall>r\<in>set (upsert_results E sid ''delta'' us d). \<not> isl r)"
  then show "\<exists>row. find_product (upsert_all E sid ''delta'' us d) sid e = Some row
          \<and> p_sync_version row = int (length us)"
    using upsert_all_from_absent [of us e d sid E] by blast
qed

lemma example_checksums_differ:
  "q < 10 \<Longrightarrow> q' < 10 \<Longrightarrow> q \<noteq> q' \<Longrightarrow>
     calculate_checksum example_platform (example_item e n (int q))
       \<noteq> calculate_checksum example_platform (example_item e n (int q'))"
  by (simp add: example_checksum str_nat_digit nth_eq_iff_index_eq [of "''0123456789''"])

lemma example_updated_row_fits:
  assumes "fits_columns existing" "in_int32 (p_sync_version existing + 1)"
    "length n \<le> 40" "0 \<le> q" "q < 10"
  shows "db_accepts example_platform
           (updated_product example_platform now existing (example_item e n q))"
proof -
  have "length (calculate_checksum example_platform (example_item e n q)) \<le> 64"
    using assms by (simp add: example_checksum length_str_nat_digit)
  then show ?thesis
    using assms
    by (simp add: fits_columns_def opt_length_def in_int32_def updated_product_def
        update_product_fields_def Let_def)
      (simp add: example_item_def)
qed

theorem sync_version_counts_upsert_writes_witness:
  "(\<exists>row. find_product
            (snd (upsert_product example_platform 50 1 (example_item ''sku-1'' ''Soap'' 5)
                    ''delta'' (example_db []))) 1 ''sku-1'' = Some row
          \<and> p_sync_version row = 1)
   \<and> (\<exists>row. find_product
            (snd (upsert_product example_platform 60 1 (example_item ''sku-1'' ''Soap'' 6)
                    ''delta'' (example_db [example_product]))) 1 ''sku-1'' = Some row
          \<and> p_sync_version row = 2)
   \<and> (\<exists>row. find_product
            (snd (update_inventory_only example_platform 60 1 (example_item ''sku-1'' ''Soap'' 7)
                    (example_db [example_product]))) 1 ''sku-1'' = Some row
          \<and> p_sync_version row = 1 \<and> p_quantity row = 7)
   \<and> (\<exists>row. find_product
            (upsert_all example_platform 1 ''delta''
               [(50, example_item ''sku-1'' ''Soap'' 5), (60, example_item ''sku-1'' ''Soap'' 6),
                (70, example_item ''sku-1'' ''Soap'' 7)] (example_db [])) 1 ''sku-1'' = Some row
          \<and> p_sync_version row = 3)"
proof -
  note T = sync_version_counts_upsert_writes [where E = example_platform and sid = 1
      and e = "''sku-1''"]
  define i5 where "i5 = example_item ''sku-1'' ''Soap'' 5"
  define i6 where "i6 = example_item ''sku-1'' ''Soap'' 6"
  define i7 where "i7 = example_item ''sku-1'' ''Soap'' 7"
  define P1 where "P1 = new_product example_platform 50 10 1 i5"
  define P2 where "P2 = updated_product example_platform 60 P1 i6"
  define P3 where "P3 = updated_product example_platform 70 P2 i7"
  define D1 where "D1 = (example_db [])\<lparr>uuid_supply := Suc 10, products := [] @ [P1]\<rparr>"
  define D2 where "D2 = D1\<lparr>products := replace_first (is_row 1 ''sku-1'') P2 (products D1)\<rparr>"
  have absent: "find_product (example_db []) 1 ''sku-1'' = None"
    by (simp add: find_product_def)
  have found: "find_product (example_db [example_product]) 1 ''sku-1'' = Some example_product"
    by simp
  have e: "external_id i5 = ''sku-1''" "external_id i6 = ''sku-1''" "external_id i7 = ''sku-1''"
    by (simp_all add: i5_def i6_def i7_def)
  have d56: "calculate_checksum example_platform i5 \<noteq> calculate_checksum example_platform i6"
    unfolding i5_def i6_def
    using example_checksums_differ [of 5 6 "''sku-1''" "''Soap''"] by simp
  have d67: "calculate_checksum example_platform i6 \<noteq> calculate_checksum example_platform i7"
    unfolding i6_def i7_def
    using example_checksums_differ [of 6 7 "''sku-1''" "''Soap''"] by simp
  have ok1: "\<And>now. db_accepts example_platform (new_product example_platform now 10 1 i5)"
    unfolding i5_def by (rule example_new_row_fits) simp_all
  have fits1: "fits_columns P1"
    using ok1 [of 50] by (simp add: P1_def)
  have v1: "p_sync_version P1 = 1" by (simp add: P1_def new_product_def)
  have c1: "p_sync_checksum P1 = Some (calculate_checksum example_platform i5)"
    by (simp add: P1_def new_product_def)
  have ok2: "db_accepts example_platform P2"
    unfolding P2_def i6_def
    by (rule example_updated_row_fits [OF fits1]) (simp_all add: v1 in_int32_def)
  have v2: "p_sync_version P2 = 2"
    using updated_product_version [of example_platform 60 P1 i6] v1 by (simp add: P2_def)
  have c2: "p_sync_checksum P2 = Some (calculate_checksum example_platform i6)"
    using updated_product_version [of example_platform 60 P1 i6] by (simp add: P2_def)
  have ok3: "db_accepts example_platform P3"
    unfolding P3_def i7_def
    using ok2 by (intro example_updated_row_fits) (simp_all add: v2 in_int32_def)
  have okB: "db_accepts example_platform (updated_product example_platform 60 example_product i6)"
    unfolding i6_def
    by (rule example_updated_row_fits [OF example_product_fits]) (simp_all add: in_int32_def)
  have okC: "db_accepts example_platform (inventory_row 60 example_product i7)"
    using inventory_row_fits [OF example_product_fits, of i7 60]
    by (simp add: i7_def in_int32_def)
  have r1: "upsert_product example_platform 50 1 i5 ''delta'' (example_db []) = (Inr ''created'', D1)"
    using upsert_product_absent [of "example_db []" 1 i5 example_platform 50 "''delta''"]
      absent e ok1 [of 50]
    by (simp add: D1_def P1_def)
  have f1: "find_product D1 1 (external_id i6) = Some P1"
    using created_row [of "example_db []" 1 i5 example_platform 50 "''delta''"]
      absent e ok1 [of 50] r1
    by (simp add: P1_def)
  have r2: "upsert_product example_platform 60 1 i6 ''delta'' D1 = (Inr ''updated'', D2)"
    using upsert_product_write [OF f1, of "''delta''" example_platform 60] c1 d56 ok2 e
    by (simp add: D2_def P2_def)
  have f2: "find_product D2 1 (external_id i7) = Some P2"
    using written_row [OF f1, of "''delta''" example_platform 60] c1 d56 ok2 e r2
    by (simp add: P2_def)
  have r3: "\<not> isl (fst (upsert_product example_platform 70 1 i7 ''delta'' D2))"
    using upsert_product_write [OF f2, of "''delta''" example_platform 70] c2 d67 ok3
    by (simp add: P3_def)
  have ret: "\<forall>r\<in>set (upsert_results example_platform 1 ''delta'' [(50, i5), (60, i6), (70, i7)]
               (example_db [])). \<not> isl r"
    using r3 by (simp add: r1 [unfolded One_nat_def] r2 [unfolded One_nat_def])
  have A: "\<exists>row. find_product
            (snd (upsert_product example_platform 50 1 i5 ''delta'' (example_db []))) 1 ''sku-1''
              = Some row
          \<and> p_sync_version row = 1"
    using T [where d = "example_db []" and data = i5 and now = 50 and ty = "''delta''"]
      absent e ok1 [of 50] by simp
  have B: "\<exists>row. find_product
            (snd (upsert_product example_platform 60 1 i6 ''delta'' (example_db [example_product])))
               1 ''sku-1'' = Some row
          \<and> p_sync_version row = 2"
    using T [where d = "example_db [example_product]" and existing = example_product
        and data = i6 and now = 60 and ty = "''delta''"]
      found e d56 okB by (simp add: i5_def)
  have C: "\<exists>row. find_product
            (snd (update_inventory_only example_platform 60 1 i7 (example_db [example_product])))
               1 ''sku-1'' = Some row
          \<and> p_sync_version row = 1 \<and> p_quantity row = 7"
    using T [where d = "example_db [example_product]" and existing = example_product
        and data = i7 and now = 60]
      found e okC by (auto simp: i7_def)
  have D: "\<exists>row. find_product
            (upsert_all example_platform 1 ''delta'' [(50, i5), (60, i6), (70, i7)] (example_db []))
               1 ''sku-1'' = Some row
          \<and> p_sync_version row = 3"
    using T [where d = "example_db []" and us = "[(50, i5), (60, i6), (70, i7)]"]
      absent e d56 d67 ret by simp
  from A B C D show ?thesis unfolding i5_def i6_def i7_def by blast
qed

text \<open>
  The claim as written fails: the inventory-only call writes the item (the quantity goes
  from 5 to 7) and the version stays at 1.
\<close>

theorem inventory_write_keeps_sync_version:
  "p_sync_version example_product = 1
   \<and> p_quantity example_product = 5
   \<and> update_inventory_only example_platform 100 1 (example_item ''sku-1'' ''Soap'' 7)
       (example_db [example_product]) =
     (Inr ''updated'',
      example_db [example_product\<lparr>p_quantity := 7, p_is_in_stock := True,
                                    p_last_synced_at := Some 100, p_updated_at := 100\<rparr>])
   \<and> p_quantity (example_product\<lparr>p_quantity := 7, p_is_in_stock := True,
                                  p_last_synced_at := Some 100, p_updated_at := 100\<rparr>) = 7
   \<and> p_sync_version (example_product\<lparr>p_quantity := 7, p_is_in_stock := True,
                                      p_last_synced_at := Some 100, p_updated_at := 100\<rparr>) = 1"
  using example_inventory_update by simp

section \<open>Request validation\<close>

lemma those_map_length:
  "those (map f xs) = Some ys \<Longrightarrow> length ys = length xs"
proof (induction xs arbitrary: ys)
  case Nil
  then show ?case by simp
next
  case (Cons x xs)
  then show ?case by (auto split: option.splits)
qed

lemma validate_request_products:
  "validate_request raw = Some request \<Longrightarrow>
     length (raw_products raw) \<le> 1000 \<and> raw_products raw \<noteq> []"
  by (auto simp: validate_request_def dest: those_map_length split: if_splits option.splits)

text \<open>
  C8. A request with more than 1000 records, or with none, does not pass validation, and
  the endpoint answers it with an error and leaves the database as it was.
\<close>

theorem oversize_or_empty_batch_rejected:
  assumes "1000 < length (raw_products raw) \<or> raw_products raw = []"
  shows "validate_request raw = None
       \<and> (\<exists>e. sync_products_batch E now key raw d = (Inl e, d))"
proof -
  have none: "validate_request raw = None"
  proof (cases "validate_request raw")
    case None
    then show ?thesis .
  next
    case (Some request)
    from validate_request_products [OF this] assms show ?thesis by auto
  qed
  then show ?thesis
    by (auto simp: sync_products_batch_def split: sum.splits)
qed

theorem oversize_or_empty_batch_rejected_witness:
  "validate_request \<lparr>raw_store_id = 1, raw_sync_type = ''full'', raw_timestamp = 100,
       raw_products = []\<rparr> = None
   \<and> validate_request \<lparr>raw_store_id = 1, raw_sync_type = ''full'', raw_timestamp = 100,
       raw_products = replicate 1001 (example_raw (Some ''sku-1'') ''Soap'' 5)\<rparr> = None
   \<and> (\<exists>e. sync_products_batch example_platform 100 ''key-1''
             \<lparr>raw_store_id = 1, raw_sync_type = ''full'', raw_timestamp = 100,
              raw_products = replicate 1001 (example_raw (Some ''sku-1'') ''Soap'' 5)\<rparr>
             (example_db []) = (Inl e, example_db []))"
  using oversize_or_empty_batch_rejected [of "\<lparr>raw_store_id = 1, raw_sync_type = ''full'',
        raw_timestamp = 100, raw_products = []\<rparr>" example_platform 100 "''key-1''" "example_db []"]
    oversize_or_empty_batch_rejected [of "\<lparr>raw_store_id = 1, raw_sync_type = ''full'',
        raw_timestamp = 100, raw_products = replicate 1001 (example_raw (Some ''sku-1'') ''Soap'' 5)\<rparr>"
        example_platform 100 "''key-1''" "example_db []"]
  by simp

section \<open>Tier classification\<close>

text \<open>
  C6. The tier is computed from the two activity counts alone, by the first threshold
  that matches from the top: 50 orders or 100 product updates give tier 1, 20 or 30 give
  tier 2, 5 or 10 give tier 3, anything less tier 4; the intervals of the four tiers are
  5, 15, 60 and 240 minutes. With 60 orders and 5 updates the tier is 1; with none of
  either it is 4, and the interval 240.
\<close>

theorem calculate_tier_first_match:
  "calculate_tier m =
     (if orders_per_day m \<ge> 50 \<or> products_updated_per_day m \<ge> 100 then TIER1
      else if orders_per_day m \<ge> 20 \<or> products_updated_per_day m \<ge> 30 then TIER2
      else if orders_per_day m \<ge> 5 \<or> products_updated_per_day m \<ge> 10 then TIER3
      else TIER4)
   \<and> calculate_tier (m\<lparr>total_products := n\<rparr>) = calculate_tier m
   \<and> map get_sync_interval [TIER1, TIER2, TIER3, TIER4] = [5, 15, 60, 240]
   \<and> calculate_tier \<lparr>orders_per_day = 60, products_updated_per_day = 5, total_products = n\<rparr>
       = TIER1
   \<and> calculate_tier \<lparr>orders_per_day = 0, products_updated_per_day = 0, total_products = n\<rparr>
       = TIER4
   \<and> get_sync_interval
        (calculate_tier \<lparr>orders_per_day = 0, products_updated_per_day = 0, total_products = n\<rparr>)
       = 240"
  by (simp add: calculate_tier_def get_sync_interval_def Let_def)

section \<open>Rate limiter\<close>

lemma window_end_le:
  fixes t window :: nat
  assumes "0 < window"
  shows "(t div window + 1) * window \<le> t + window"
proof -
  have "t div window * window \<le> t" by simp
  then show ?thesis by (simp add: algebra_simps)
qed

lemma before_window_end:
  fixes t window :: nat
  assumes "0 < window"
  shows "t < (t div window + 1) * window"
  using assms by (metis Suc_eq_plus1 dividend_less_div_times mult.commute mult_Suc add.commute)

text \<open>
  One call inside window \<open>k\<close>: the count goes from \<open>c\<close> to \<open>c + 1\<close>, and the key
  keeps an expiry time that lies at or after the end of the window.
\<close>

lemma check_rate_limit_step:
  assumes w: "0 < window" and k: "t div window = k" and c: "0 \<le> c"
    and inv: "counter_at m (''ratelimit:'' @ i @ '':'' @ e @ '':'' @ str_nat k) c ((k + 1) * window)"
  shows "\<exists>m'. check_rate_limit (Some m) t i e limit window =
           (Inr (c + 1 \<le> limit, max 0 (limit - (c + 1)), (k + 1) * window), Some m')
         \<and> counter_at m' (''ratelimit:'' @ i @ '':'' @ e @ '':'' @ str_nat k) (c + 1) ((k + 1) * window)"
proof (cases "c = 0")
  case True
  have "(k + 1) * window \<le> t + window" using window_end_le [OF w, of t] k by simp
  with True inv w k show ?thesis
    by (simp add: check_rate_limit_def increment_def incrby_def expire_def live_def
        counter_at_def Let_def)
next
  case False
  have lt: "t < (k + 1) * window" using before_window_end [OF w, of t] k by simp
  from False inv obtain x where
    x: "m (''ratelimit:'' @ i @ '':'' @ e @ '':'' @ str_nat k) = Some \<lparr>rvalue = c, rexpiry = Some x\<rparr>"
    and bx: "(k + 1) * window \<le> x"
    by (auto simp: counter_at_def)
  from lt bx have "\<not> x \<le> t" by simp
  with False c x bx w k show ?thesis
    by (simp add: check_rate_limit_def increment_def incrby_def expire_def live_def
        counter_at_def Let_def)
qed

lemma check_rate_limits_counts:
  assumes w: "0 < window" and ts: "\<forall>t\<in>set ts. t div window = k" and c: "0 \<le> c"
    and inv: "counter_at m (''ratelimit:'' @ i @ '':'' @ e @ '':'' @ str_nat k) c ((k + 1) * window)"
  shows "check_rate_limits (Some m) ts i e limit window =
           map (\<lambda>n. Inr (c + 1 + int n \<le> limit, max 0 (limit - (c + 1 + int n)), (k + 1) * window))
             [0..<length ts]"
  using ts c inv
proof (induction ts arbitrary: m c)
  case Nil
  then show ?case by simp
next
  case (Cons t ts)
  from Cons.prems have tk: "t div window = k" and rest: "\<forall>t\<in>set ts. t div window = k"
    by simp_all
  from check_rate_limit_step [OF w tk Cons.prems(2) Cons.prems(3), of limit]
  obtain m' where
    step: "check_rate_limit (Some m) t i e limit window =
             (Inr (c + 1 \<le> limit, max 0 (limit - (c + 1)), (k + 1) * window), Some m')"
    and inv': "counter_at m' (''ratelimit:'' @ i @ '':'' @ e @ '':'' @ str_nat k) (c + 1) ((k + 1) * window)"
    by blast
  have c': "0 \<le> c + 1" using Cons.prems(2) by simp
  have "check_rate_limits (Some m') ts i e limit window =
          map (\<lambda>n. Inr (c + 1 + 1 + int n \<le> limit, max 0 (limit - (c + 1 + 1 + int n)), (k + 1) * window))
            [0..<length ts]"
    by (rule Cons.IH [OF rest c' inv'])
  then show ?case
    using step by (simp add: map_upt_Suc del: upt_Suc) (simp add: algebra_simps)
qed

text \<open>
  C5. The limiter counts the calls of one identifier and endpoint inside one window of
  \<open>window\<close> seconds, under a key built from the identifier, the endpoint and
  \<open>now div window\<close>. Starting from a key that is not in the cache, the call number
  \<open>n + 1\<close> of the window returns allowed exactly when \<open>n + 1 \<le> limit\<close>, remaining
  \<open>max 0 (limit - (n + 1))\<close>, and as reset time the end of the window,
  \<open>(k + 1) * window\<close>.
\<close>

theorem fixed_window_counter:
  assumes "0 < window" and "\<forall>t\<in>set ts. t div window = k"
    and "m (''ratelimit:'' @ identifier @ '':'' @ endpoint @ '':'' @ str_nat k) = None"
  shows "check_rate_limits (Some m) ts identifier endpoint limit window =
           map (\<lambda>n. Inr (int n + 1 \<le> limit, max 0 (limit - (int n + 1)), (k + 1) * window))
             [0..<length ts]"
proof -
  have "counter_at m (''ratelimit:'' @ identifier @ '':'' @ endpoint @ '':'' @ str_nat k) 0
          ((k + 1) * window)"
    using assms(3) by (simp add: counter_at_def)
  from check_rate_limits_counts [OF assms(1) assms(2) _ this, of limit]
  show ?thesis by (simp add: add.commute)
qed

text \<open>
  The example of the claim: limit 5, window 60 seconds, six calls between second 120 and
  second 179. The first five are allowed with 4, 3, 2, 1 and 0 remaining, the sixth is
  refused with 0 remaining; each carries the reset time 180.
\<close>

theorem fixed_window_counter_witness:
  "check_rate_limits (Some Map.empty) [120, 125, 130, 140, 150, 179]
     ''store-1'' ''/api/v1/sync/products/batch'' 5 60 =
   [Inr (True, 4, 180), Inr (True, 3, 180), Inr (True, 2, 180), Inr (True, 1, 180),
    Inr (True, 0, 180), Inr (False, 0, 180)]"
  using fixed_window_counter [of 60 "[120, 125, 130, 140, 150, 179]" 2 Map.empty
      "''store-1''" "''/api/v1/sync/products/batch''" 5]
  by (simp add: upt_rec)

section \<open>A record that fails\<close>

lemma those_map_None:
  "x \<in> set xs \<Longrightarrow> f x = None \<Longrightarrow> those (map f xs) = None"
  by (induction xs) (auto split: option.splits)

lemma validate_item_no_external_id:
  "raw_external_id x = None \<or> raw_external_id x = Some [] \<Longrightarrow> validate_item x = None"
  by (auto simp: validate_item_def split: option.splits)

lemma sync_step_raise_frame:
  assumes "isl (fst (sync_step E now sid ty p d))"
  shows "products (snd (sync_step E now sid ty p d)) = products d"
  using assms
  by (auto simp: sync_step_def update_inventory_only_def upsert_product_def commit_update_def
      commit_insert_def uuid4_def Let_def split: option.splits if_splits)

lemma sync_one_raise:
  assumes "isl (fst (sync_step E now sid ty data d))"
  shows "sync_one E now sid ty data (s, d) =
           (count_failure data (projl (fst (sync_step E now sid ty data d))) s,
            snd (sync_step E now sid ty data d))"
  using assms by (auto simp: sync_one_def split: prod.splits sum.splits)

lemma sync_one_return:
  assumes "\<not> isl (fst (sync_step E now sid ty data d))"
  shows "sync_one E now sid ty data (s, d) =
           (count_success (projr (fst (sync_step E now sid ty data d))) s,
            snd (sync_step E now sid ty data d))"
  using assms by (auto simp: sync_one_def split: prod.splits sum.splits)

text \<open>
  C2. As the code has it: a request in which a record has no external id, or an empty one,
  does not pass validation; the endpoint answers it with an error and leaves the database
  as it was, so the batch as a whole is rejected. Inside the loop, a record whose call
  raises is caught: it is counted as failed and not as processed, its external id and
  error are appended to the list of errors, and it writes no product; a record whose call
  returns is counted as processed. So the loop ends with processed + failed equal to the
  size of the batch: processed does not count the records that failed.
\<close>

theorem failed_record_is_counted_not_processed:
  "((\<exists>x\<in>set (raw_products raw). raw_external_id x = None \<or> raw_external_id x = Some [])
      \<longrightarrow> validate_request raw = None
          \<and> (\<exists>e. sync_products_batch E now key raw d = (Inl e, d)))
   \<and> (isl (fst (sync_step E now sid ty data d))
      \<longrightarrow> failed (fst (sync_one E now sid ty data (s, d))) = failed s + 1
          \<and> processed (fst (sync_one E now sid ty data (s, d))) = processed s
          \<and> errors (fst (sync_one E now sid ty data (s, d)))
              = errors s @ [(external_id data, projl (fst (sync_step E now sid ty data d)))]
          \<and> products (snd (sync_one E now sid ty data (s, d))) = products d)
   \<and> (\<not> isl (fst (sync_step E now sid ty data d))
      \<longrightarrow> failed (fst (sync_one E now sid ty data (s, d))) = failed s
          \<and> processed (fst (sync_one E now sid ty data (s, d))) = processed s + 1
          \<and> errors (fst (sync_one E now sid ty data (s, d))) = errors s)
   \<and> processed (fst (snd (sync_loop E now sid ty ps (False, stats0, d))))
       + failed (fst (snd (sync_loop E now sid ty ps (False, stats0, d)))) = int (length ps)"
proof (intro conjI impI)
  assume "\<exists>x\<in>set (raw_products raw). raw_external_id x = None \<or> raw_external_id x = Some []"
  then obtain x where "x \<in> set (raw_products raw)" "validate_item x = None"
    using validate_item_no_external_id by blast
  then have "those (map validate_item (raw_products raw)) = None"
    by (rule those_map_None)
  then show "validate_request raw = None"
    by (simp add: validate_request_def)
  then show "\<exists>e. sync_products_batch E now key raw d = (Inl e, d)"
    by (auto simp: sync_products_batch_def split: sum.splits)
next
  assume raised: "isl (fst (sync_step E now sid ty data d))"
  note one = sync_one_raise [OF raised, of s]
  show "failed (fst (sync_one E now sid ty data (s, d))) = failed s + 1"
    by (simp add: one count_failure_counters)
  show "processed (fst (sync_one E now sid ty data (s, d))) = processed s"
    by (simp add: one count_failure_counters)
  show "errors (fst (sync_one E now sid ty data (s, d)))
      = errors s @ [(external_id data, projl (fst (sync_step E now sid ty data d)))]"
    by (simp add: one count_failure_counters)
  show "products (snd (sync_one E now sid ty data (s, d))) = products d"
    by (simp add: one sync_step_raise_frame [OF raised])
next
  assume returned: "\<not> isl (fst (sync_step E now sid ty data d))"
  note one = sync_one_return [OF returned, of s]
  show "failed (fst (sync_one E now sid ty data (s, d))) = failed s"
    by (simp add: one count_success_counters)
  show "processed (fst (sync_one E now sid ty data (s, d))) = processed s + 1"
    by (simp add: one count_success_counters)
  show "errors (fst (sync_one E now sid ty data (s, d))) = errors s"
    by (simp add: one count_success_counters)
next
  show "processed (fst (snd (sync_loop E now sid ty ps (False, stats0, d))))
       + failed (fst (snd (sync_loop E now sid ty ps (False, stats0, d)))) = int (length ps)"
    using sync_loop_total [of E now sid ty ps "(False, stats0, d)"] by (simp add: stats0_def)
qed

text \<open>
  A batch of ten records, the fifth without an external id; a record whose external id is
  too long for its column, which the database refuses; and a record that is created.
\<close>

lemma example_refused_step:
  "sync_step example_platform 100 1 ''full''
       (example_item (replicate 101 CHR ''x'') ''Soap'' 5) (example_db [])
     = (Inl DBAPIError, (example_db [])\<lparr>uuid_supply := 11\<rparr>)"
  by (simp add: sync_step_def upsert_product_def find_product_def uuid4_def commit_insert_def
      example_long_id_refused [unfolded example_accepts])

lemma example_created_step:
  "\<not> isl (fst (sync_step example_platform 100 1 ''full''
             (example_item ''sku-1'' ''Soap'' 5) (example_db [])))"
proof -
  have absent: "find_product (example_db []) 1 (external_id (example_item ''sku-1'' ''Soap'' 5)) = None"
    by (simp add: find_product_def)
  have ok: "db_accepts example_platform
      (new_product example_platform 100 (uuid_supply (example_db [])) 1
         (example_item ''sku-1'' ''Soap'' 5))"
    by (rule example_new_row_fits) simp_all
  show ?thesis
    unfolding sync_step_def upsert_product_absent [OF absent ok] by simp
qed

theorem failed_record_is_counted_not_processed_witness:
  "validate_request
       \<lparr>raw_store_id = 1, raw_sync_type = ''full'', raw_timestamp = 100,
        raw_products =
          [example_raw (Some ''sku-1'') ''Soap'' 5, example_raw (Some ''sku-2'') ''Soap'' 5,
           example_raw (Some ''sku-3'') ''Soap'' 5, example_raw (Some ''sku-4'') ''Soap'' 5,
           example_raw None ''Soap'' 5, example_raw (Some ''sku-6'') ''Soap'' 5,
           example_raw (Some ''sku-7'') ''Soap'' 5, example_raw (Some ''sku-8'') ''Soap'' 5,
           example_raw (Some ''sku-9'') ''Soap'' 5, example_raw (Some ''sku-10'') ''Soap'' 5]\<rparr>
     = None
   \<and> failed (fst (sync_one example_platform 100 1 ''full''
         (example_item (replicate 101 CHR ''x'') ''Soap'' 5) (stats0, example_db []))) = 1
   \<and> processed (fst (sync_one example_platform 100 1 ''full''
         (example_item (replicate 101 CHR ''x'') ''Soap'' 5) (stats0, example_db []))) = 0
   \<and> errors (fst (sync_one example_platform 100 1 ''full''
         (example_item (replicate 101 CHR ''x'') ''Soap'' 5) (stats0, example_db [])))
       = [(replicate 101 CHR ''x'', DBAPIError)]
   \<and> products (snd (sync_one example_platform 100 1 ''full''
         (example_item (replicate 101 CHR ''x'') ''Soap'' 5) (stats0, example_db []))) = []
   \<and> failed (fst (sync_one example_platform 100 1 ''full''
         (example_item ''sku-1'' ''Soap'' 5) (stats0, example_db []))) = 0
   \<and> processed (fst (sync_one example_platform 100 1 ''full''
         (example_item ''sku-1'' ''Soap'' 5) (stats0, example_db []))) = 1"
proof -
  let ?raw = "\<lparr>raw_store_id = 1, raw_sync_type = ''full'', raw_timestamp = 100,
        raw_products =
          [example_raw (Some ''sku-1'') ''Soap'' 5, example_raw (Some ''sku-2'') ''Soap'' 5,
           example_raw (Some ''sku-3'') ''Soap'' 5, example_raw (Some ''sku-4'') ''Soap'' 5,
           example_raw None ''Soap'' 5, example_raw (Some ''sku-6'') ''Soap'' 5,
           example_raw (Some ''sku-7'') ''Soap'' 5, example_raw (Some ''sku-8'') ''Soap'' 5,
           example_raw (Some ''sku-9'') ''Soap'' 5, example_raw (Some ''sku-10'') ''Soap'' 5]\<rparr>"
  let ?bad = "example_item (replicate 101 CHR ''x'') ''Soap'' 5"
  let ?good = "example_item ''sku-1'' ''Soap'' 5"
  have missing: "\<exists>x\<in>set (raw_products ?raw). raw_external_id x = None \<or> raw_external_id x = Some []"
    by (simp add: example_raw_def)
  have raised: "isl (fst (sync_step example_platform 100 1 ''full'' ?bad (example_db [])))"
    unfolding example_refused_step by simp
  have err: "projl (fst (sync_step example_platform 100 1 ''full'' ?bad (example_db []))) = DBAPIError"
    unfolding example_refused_step by simp
  have a: "validate_request ?raw = None"
    using failed_record_is_counted_not_processed [of ?raw example_platform 100 "''key-1''"
        "example_db []" 1 "''full''" ?bad stats0 "[]"] missing
    by blast
  have b: "failed (fst (sync_one example_platform 100 1 ''full'' ?bad (stats0, example_db [])))
             = failed stats0 + 1
      \<and> processed (fst (sync_one example_platform 100 1 ''full'' ?bad (stats0, example_db [])))
             = processed stats0
      \<and> errors (fst (sync_one example_platform 100 1 ''full'' ?bad (stats0, example_db [])))
             = errors stats0 @ [(external_id ?bad,
                  projl (fst (sync_step example_platform 100 1 ''full'' ?bad (example_db []))))]
      \<and> products (snd (sync_one example_platform 100 1 ''full'' ?bad (stats0, example_db [])))
             = products (example_db [])"
    using failed_record_is_counted_not_processed [of ?raw example_platform 100 "''key-1''"
        "example_db []" 1 "''full''" ?bad stats0 "[]"] raised
    by blast
  have c: "failed (fst (sync_one example_platform 100 1 ''full'' ?good (stats0, example_db [])))
             = failed stats0
      \<and> processed (fst (sync_one example_platform 100 1 ''full'' ?good (stats0, example_db [])))
             = processed stats0 + 1"
    using failed_record_is_counted_not_processed [of ?raw example_platform 100 "''key-1''"
        "example_db []" 1 "''full''" ?good stats0 "[]"] example_created_step
    by blast
  from a b c show ?thesis
    unfolding err by (simp add: stats0_def)
qed

text \<open>
  The claim as written fails: for a batch of ten records of which the fifth has no
  external id, the endpoint answers with status 422; there is no response with
  processed = 10 and failed = 1, and none of the other nine records is committed.
\<close>

theorem missing_external_id_rejects_whole_batch:
  "sync_products_batch example_platform 100 ''key-1''
       \<lparr>raw_store_id = 1, raw_sync_type = ''full'', raw_timestamp = 100,
        raw_products =
          [example_raw (Some ''sku-1'') ''Soap'' 5, example_raw (Some ''sku-2'') ''Soap'' 5,
           example_raw (Some ''sku-3'') ''Soap'' 5, example_raw (Some ''sku-4'') ''Soap'' 5,
           example_raw None ''Soap'' 5, example_raw (Some ''sku-6'') ''Soap'' 5,
           example_raw (Some ''sku-7'') ''Soap'' 5, example_raw (Some ''sku-8'') ''Soap'' 5,
           example_raw (Some ''sku-9'') ''Soap'' 5, example_raw (Some ''sku-10'') ''Soap'' 5]\<rparr>
       (example_db [])
     = (Inl HTTP_422, example_db [])
   \<and> products (example_db []) = []"
  by (simp add: sync_products_batch_def verify_sync_api_key_def validate_request_def
      validate_item_def example_raw_def example_store_def)

end
